theory Spec2Isabelle
  imports Main "HOL-Library.Char_ord" "HOL-Library.List_Lexorder"
begin

section \<open>Python values and exceptions\<close>

text \<open>
  The catalog is what \<^verbatim>\<open>requests.get(...).json()\<close> returns: a JSON value. Objects are
  association lists in document order, which is the iteration order of a Python dict
  (keys of a dict are distinct). Floating-point numbers are left out: neither script
  reads a number from the feed. A Python \<^verbatim>\<open>str\<close> is a \<open>string\<close> whose characters are
  code points below 256; the content of a file is a \<open>string\<close> of bytes.
\<close>

datatype json =
    JNull
  | JBool bool
  | JInt int
  | JStr string
  | JList "json list"
  | JDict "(string \<times> json) list"

text \<open>
  The exceptions the two scripts can meet. \<open>Unmodelled\<close> is not a Python exception: it
  marks the one place where Python goes on and this embedding does not follow, the
  \<^verbatim>\<open>repr\<close> text of a list or dict inside a format string.
\<close>

datatype error =
    KeyError string
  | TypeError
  | AttributeError
  | ValueError
  | AssertionError string
  | FileNotFoundError
  | FileExistsError
  | IsADirectoryError
  | NotADirectoryError
  | PermissionError
  | ConnectionError
  | Unmodelled

text \<open>Truth value of an object, as \<^verbatim>\<open>not x\<close> tests it.\<close>

fun truthy :: "json \<Rightarrow> bool" where
  "truthy JNull = False"
| "truthy (JBool b) = b"
| "truthy (JInt n) = (n \<noteq> 0)"
| "truthy (JStr s) = (s \<noteq> [])"
| "truthy (JList xs) = (xs \<noteq> [])"
| "truthy (JDict kvs) = (kvs \<noteq> [])"

text \<open>\<^verbatim>\<open>x[k]\<close> for a string key \<open>k\<close>: only a dict can be subscripted by a string.\<close>

fun py_getitem :: "json \<Rightarrow> string \<Rightarrow> error + json" where
  "py_getitem (JDict kvs) k = (case map_of kvs k of None \<Rightarrow> Inl (KeyError k) | Some v \<Rightarrow> Inr v)"
| "py_getitem _ k = Inl TypeError"

text \<open>\<^verbatim>\<open>x.get(k, ())\<close>: the default is the empty tuple, which iterates as the empty list.\<close>

fun py_get :: "json \<Rightarrow> string \<Rightarrow> error + json" where
  "py_get (JDict kvs) k = (case map_of kvs k of None \<Rightarrow> Inr (JList []) | Some v \<Rightarrow> Inr v)"
| "py_get _ k = Inl AttributeError"

text \<open>
  The elements a \<^verbatim>\<open>for\<close> loop sees: the items of a list, the one-character strings
  of a string, the keys of a dict; nothing else is iterable.
\<close>

fun py_iter :: "json \<Rightarrow> error + json list" where
  "py_iter (JList xs) = Inr xs"
| "py_iter (JStr s) = Inr (map (\<lambda>c. JStr [c]) s)"
| "py_iter (JDict kvs) = Inr (map (\<lambda>kv. JStr (fst kv)) kvs)"
| "py_iter _ = Inl TypeError"

fun py_len :: "json \<Rightarrow> error + nat" where
  "py_len (JList xs) = Inr (length xs)"
| "py_len (JStr s) = Inr (length s)"
| "py_len (JDict kvs) = Inr (length kvs)"
| "py_len _ = Inl TypeError"

text \<open>\<^verbatim>\<open>c in x\<close> for a one-character string \<open>c\<close>.\<close>

fun py_contains_char :: "char \<Rightarrow> json \<Rightarrow> error + bool" where
  "py_contains_char c (JStr s) = Inr (c \<in> set s)"
| "py_contains_char c (JList xs) = Inr (JStr [c] \<in> set xs)"
| "py_contains_char c (JDict kvs) = Inr ([c] \<in> set (map fst kvs))"
| "py_contains_char c _ = Inl TypeError"

text \<open>
  \<^verbatim>\<open>s.rpartition(c)\<close>: head, separator and tail around the last occurrence of \<open>c\<close>;
  two empty strings and the whole of \<open>s\<close> when \<open>c\<close> does not occur.
\<close>

definition rpartition :: "string \<Rightarrow> char \<Rightarrow> string \<times> string \<times> string" where
  "rpartition s c =
     (if c \<in> set s
      then (rev (tl (dropWhile (\<lambda>x. x \<noteq> c) (rev s))), [c], rev (takeWhile (\<lambda>x. x \<noteq> c) (rev s)))
      else ([], [], s))"

fun py_rpartition :: "json \<Rightarrow> char \<Rightarrow> error + string \<times> string \<times> string" where
  "py_rpartition (JStr s) c = Inr (rpartition s c)"
| "py_rpartition _ c = Inl AttributeError"

text \<open>\<^verbatim>\<open>s + x\<close> for a string \<open>s\<close>.\<close>

fun py_add_str :: "string \<Rightarrow> json \<Rightarrow> error + string" where
  "py_add_str s (JStr t) = Inr (s @ t)"
| "py_add_str s _ = Inl TypeError"

text \<open>Decimal text of a number, as \<^verbatim>\<open>str\<close> prints it.\<close>

fun str_nat :: "nat \<Rightarrow> string" where
  "str_nat n = (if n < 10 then [char_of (48 + n)] else str_nat (n div 10) @ [char_of (48 + n mod 10)])"

declare str_nat.simps [simp del]

definition str_int :: "int \<Rightarrow> string" where
  "str_int i = (if i < 0 then CHR ''-'' # str_nat (nat (- i)) else str_nat (nat i))"

text \<open>The text \<^verbatim>\<open>"{}".format(x)\<close> puts in place of the braces.\<close>

fun py_format :: "json \<Rightarrow> error + string" where
  "py_format JNull = Inr ''None''"
| "py_format (JBool b) = Inr (if b then ''True'' else ''False'')"
| "py_format (JInt i) = Inr (str_int i)"
| "py_format (JStr s) = Inr s"
| "py_format _ = Inl Unmodelled"

text \<open>
  \<^verbatim>\<open>urllib.parse.quote(x)\<close> with its default safe character \<^verbatim>\<open>/\<close>: letters, digits
  and \<^verbatim>\<open>_.-~\<close> stay, every other character becomes the percent-escapes of its UTF-8 bytes.
\<close>

definition always_safe :: "char \<Rightarrow> bool" where
  "always_safe c =
     (c \<in> set ''ABCDEFGHIJKLMNOPQRSTUVWXYZabcdefghijklmnopqrstuvwxyz0123456789_.-~'')"

definition percent :: "nat \<Rightarrow> string" where
  "percent b = [CHR ''%'', ''0123456789ABCDEF'' ! (b div 16), ''0123456789ABCDEF'' ! (b mod 16)]"

definition quote_char :: "char \<Rightarrow> string" where
  "quote_char c =
     (let n = (of_char c :: nat) in
      if always_safe c \<or> c = CHR ''/'' then [c]
      else if n < 128 then percent n
      else percent (192 + n div 64) @ percent (128 + n mod 64))"

fun quote :: "json \<Rightarrow> error + string" where
  "quote (JStr s) = Inr (concat (map quote_char s))"
| "quote _ = Inl TypeError"

section \<open>The world: files, output, network\<close>

text \<open>
  A path names at most one node; paths are compared as written (no symbolic links, no
  normalisation of \<^verbatim>\<open>.\<close> and \<^verbatim>\<open>..\<close>). A regular file carries whether it may be read
  and written, and its content. The file system holds the paths that \<^verbatim>\<open>os.path.exists\<close>
  reports: to the scripts a path exists when that call says so, and not otherwise.
\<close>

datatype node = Dir | File (readable: bool) (writable: bool) (content: string)

datatype event =
    Print string
  | HttpGet string
  | Mkdir string
  | Write string string

record world =
  fs :: "string \<rightharpoonup> node"
  trace :: "event list"

text \<open>
  What the server answers to a GET: the status code, what \<^verbatim>\<open>int\<close> makes of the
  \<^verbatim>\<open>content-length\<close> header, and the body. The network is a function from the URL to
  the answer, or to the exception \<^verbatim>\<open>requests.get\<close> raises.
\<close>

datatype content_length =
    NoLength
  | BadLength
  | Length int

record response =
  status_code :: int
  content_length :: content_length
  body :: string

type_synonym network = "string \<Rightarrow> error + response"

text \<open>
  A statement runs in a world and ends in a world, with a value or with an exception
  raised; what was done before the exception stays done.
\<close>

type_synonym 'a io = "world \<Rightarrow> (error + 'a) \<times> world"

definition return :: "'a \<Rightarrow> 'a io" where
  "return x w = (Inr x, w)"

definition lift :: "error + 'a \<Rightarrow> 'a io" where
  "lift r w = (r, w)"

definition andthen :: "'a io \<Rightarrow> ('a \<Rightarrow> 'b io) \<Rightarrow> 'b io" where
  "andthen m f w = (case m w of (Inl e, w') \<Rightarrow> (Inl e, w') | (Inr x, w') \<Rightarrow> f x w')"

definition emit :: "event \<Rightarrow> world \<Rightarrow> world" where
  "emit e w = w\<lparr>trace := trace w @ [e]\<rparr>"

definition print :: "string \<Rightarrow> unit io" where
  "print s w = (Inr (), emit (Print s) w)"

definition os_path_exists :: "string \<Rightarrow> bool io" where
  "os_path_exists path w = (Inr (fs w path \<noteq> None), w)"

text \<open>\<^verbatim>\<open>os.path.dirname\<close>, and the check every creation makes of the parent directory.\<close>

definition dirname :: "string \<Rightarrow> string" where
  "dirname p =
     (let head = rev (dropWhile (\<lambda>c. c \<noteq> CHR ''/'') (rev p)) in
      if head \<noteq> [] \<and> \<not> list_all (\<lambda>c. c = CHR ''/'') head
      then rev (dropWhile (\<lambda>c. c = CHR ''/'') (rev head)) else head)"

definition parent_error :: "(string \<rightharpoonup> node) \<Rightarrow> string \<Rightarrow> error option" where
  "parent_error f p =
     (if dirname p = [] then None
      else case f (dirname p) of
             None \<Rightarrow> Some FileNotFoundError
           | Some Dir \<Rightarrow> None
           | Some (File r wr d) \<Rightarrow> Some NotADirectoryError)"

definition os_mkdir :: "string \<Rightarrow> unit io" where
  "os_mkdir path w =
     (case parent_error (fs w) path of
        Some e \<Rightarrow> (Inl e, w)
      | None \<Rightarrow>
          if fs w path \<noteq> None then (Inl FileExistsError, w)
          else (Inr (), emit (Mkdir path) (w\<lparr>fs := (fs w)(path \<mapsto> Dir)\<rparr>)))"

text \<open>\<^verbatim>\<open>with open(path, 'rb') as fh: data = fh.read()\<close>\<close>

definition read_file :: "string \<Rightarrow> string io" where
  "read_file path w =
     (case fs w path of
        None \<Rightarrow> (Inl FileNotFoundError, w)
      | Some Dir \<Rightarrow> (Inl IsADirectoryError, w)
      | Some (File r wr d) \<Rightarrow> if r then (Inr d, w) else (Inl PermissionError, w))"

text \<open>
  \<^verbatim>\<open>with open(path, 'wb') as fh: ... fh.write(data)\<close>, with all of \<open>data\<close> written
  (a transfer that breaks off half-way is not modelled).
\<close>

definition write_file :: "string \<Rightarrow> string \<Rightarrow> unit io" where
  "write_file path data w =
     (case parent_error (fs w) path of
        Some e \<Rightarrow> (Inl e, w)
      | None \<Rightarrow>
         (case fs w path of
            Some Dir \<Rightarrow> (Inl IsADirectoryError, w)
          | Some (File r wr d) \<Rightarrow>
              if wr then (Inr (), emit (Write path data) (w\<lparr>fs := (fs w)(path \<mapsto> File r wr data)\<rparr>))
              else (Inl PermissionError, w)
          | None \<Rightarrow> (Inr (), emit (Write path data) (w\<lparr>fs := (fs w)(path \<mapsto> File True True data)\<rparr>))))"

definition requests_get :: "network \<Rightarrow> string \<Rightarrow> response io" where
  "requests_get net url w = (net url, emit (HttpGet url) w)"

section \<open>downloader.py\<close>

definition CATEGORIES :: "string list" where
  "CATEGORIES = [''ee-full'', ''ce-full'', ''ee-patch'', ''ce-patch'']"

text \<open>
  \<^verbatim>\<open>download_file(filename, path)\<close>. It returns \<^verbatim>\<open>False\<close> after a status other than
  200 and \<^verbatim>\<open>None\<close> after saving. \<^verbatim>\<open>int(resp.headers.get('content-length'))\<close> is
  \<^verbatim>\<open>int(None)\<close>, a TypeError, when the header is missing, and a ValueError when the
  header is no integer; the progress bar that shows the number has no effect.
\<close>

definition totalsize_of :: "content_length \<Rightarrow> error + int" where
  "totalsize_of h = (case h of NoLength \<Rightarrow> Inl TypeError | BadLength \<Rightarrow> Inl ValueError | Length n \<Rightarrow> Inr n)"

definition download_file :: "network \<Rightarrow> json \<Rightarrow> string \<Rightarrow> bool option io" where
  "download_file net filename path =
     andthen (lift (quote filename)) (\<lambda>q.
     let url = ''https://www.magentocommerce.com/products/downloads/file/'' @ q in
     andthen (print (''Downloading '' @ url)) (\<lambda>_.
     andthen (requests_get net url) (\<lambda>resp.
     if status_code resp \<noteq> 200 then
       andthen (print (''Status code '' @ str_int (status_code resp) @ '' for '' @ url @ '', aborting'')) (\<lambda>_.
       return (Some False))
     else
       andthen (lift (totalsize_of (content_length resp))) (\<lambda>totalsize.
       andthen (write_file path (body resp)) (\<lambda>_.
       andthen (print (''Saved '' @ path)) (\<lambda>_.
       return None))))))"

text \<open>
  \<^verbatim>\<open>verify_md5sum(path, want_md5)\<close>. \<open>md5_hex\<close> stands for
  \<^verbatim>\<open>hashlib.md5(data).hexdigest()\<close>, a function of the standard library. The comparison
  \<^verbatim>\<open>real_md5 == want_md5\<close> holds only for the same string.
\<close>

definition verify_md5sum :: "(string \<Rightarrow> string) \<Rightarrow> string \<Rightarrow> json \<Rightarrow> bool io" where
  "verify_md5sum md5_hex path want_md5 =
     andthen (os_path_exists path) (\<lambda>ex.
     if \<not> ex then
       andthen (print (''file does not exist: '' @ path)) (\<lambda>_. return False)
     else if \<not> truthy want_md5 then return True
     else
       andthen (read_file path) (\<lambda>data.
       let real_md5 = md5_hex data; same = (JStr real_md5 = want_md5) in
       if \<not> same then
         andthen (print (''file '' @ path @ '' exists but has different checksum '' @ real_md5)) (\<lambda>_.
         return same)
       else return same))"

text \<open>
  A \<^verbatim>\<open>for\<close> loop over a list: the body runs on each element in turn, \<^verbatim>\<open>continue\<close>
  is the end of the body, and an exception raised by the body leaves the loop.
\<close>

fun for_each :: "('a \<Rightarrow> unit io) \<Rightarrow> 'a list \<Rightarrow> unit io" where
  "for_each step [] w = (Inr (), w)"
| "for_each step (x # xs) w =
     (case step x w of (Inl e, w') \<Rightarrow> (Inl e, w') | (Inr u, w') \<Rightarrow> for_each step xs w')"

text \<open>\<^verbatim>\<open>itertools.chain.from_iterable(xs)\<close>, made a list at once.\<close>

fun chain_from_iterable :: "json list \<Rightarrow> error + json list" where
  "chain_from_iterable [] = Inr []"
| "chain_from_iterable (x # xs) =
     (case py_iter x of
        Inl e \<Rightarrow> Inl e
      | Inr ys \<Rightarrow> (case chain_from_iterable xs of Inl e \<Rightarrow> Inl e | Inr zs \<Rightarrow> Inr (ys @ zs)))"

text \<open>
  \<^verbatim>\<open>if isinstance(files, dict): files = list(itertools.chain.from_iterable(files.values()))\<close>
\<close>

definition flatten_files :: "json \<Rightarrow> error + json" where
  "flatten_files files =
     (case files of
        JDict groups \<Rightarrow>
          (case chain_from_iterable (map snd groups) of Inl e \<Rightarrow> Inl e | Inr xs \<Rightarrow> Inr (JList xs))
      | _ \<Rightarrow> Inr files)"

text \<open>The body of the inner loop of \<^verbatim>\<open>sync_everything\<close>, for one \<open>file\<close> of a category.\<close>

definition sync_file :: "(string \<Rightarrow> string) \<Rightarrow> network \<Rightarrow> string \<Rightarrow> json \<Rightarrow> unit io" where
  "sync_file md5_hex net category_path file =
     andthen (lift (py_getitem file ''file_name'')) (\<lambda>file_name.
     andthen (lift (py_contains_char CHR ''/'' file_name)) (\<lambda>deep.
     if deep then
       andthen (lift (py_format file_name)) (\<lambda>s.
       print (''deep path, skipping: '' @ s))
     else
       andthen (lift (py_rpartition file_name CHR ''.'')) (\<lambda>parts.
       if snd (snd parts) \<in> set [''zip'', ''bz2''] then return ()
       else
         andthen (lift (py_add_str (category_path @ ''/'') file_name)) (\<lambda>target.
         andthen (lift (py_getitem file ''md5'')) (\<lambda>want_md5.
         andthen (verify_md5sum md5_hex target want_md5) (\<lambda>ok.
         andthen (if \<not> ok then
                    andthen (lift (py_format file_name)) (\<lambda>s.
                    andthen (print (''md5 mismatch for '' @ s @ '', redownloading!'')) (\<lambda>_.
                    andthen (download_file net file_name target) (\<lambda>_.
                    return ())))
                  else return ()) (\<lambda>_.
         print target)))))))"

text \<open>
  The body of the outer loop, for one item \<open>(category, files)\<close> of the catalog.
  \<open>DOWNLOAD_PATH\<close> is the directory \<^verbatim>\<open>downloaded\<close> beside the script.
\<close>

definition sync_category ::
  "(string \<Rightarrow> string) \<Rightarrow> network \<Rightarrow> string \<Rightarrow> string \<times> json \<Rightarrow> unit io" where
  "sync_category md5_hex net DOWNLOAD_PATH item =
     (let category = fst item; files = snd item in
      if category \<notin> set CATEGORIES then
        print (''unknown category: '' @ category @ '', skipping...'')
      else
        let category_path = DOWNLOAD_PATH @ ''/'' @ category in
        andthen (os_path_exists category_path) (\<lambda>ex.
        andthen (if \<not> ex then os_mkdir category_path else return ()) (\<lambda>_.
        andthen (lift (flatten_files files)) (\<lambda>files.
        andthen (lift (py_iter files)) (\<lambda>each.
        andthen (for_each (sync_file md5_hex net category_path) each) (\<lambda>_.
        andthen (lift (py_len files)) (\<lambda>n.
        print (category_path @ '' '' @ str_nat n))))))))"

definition sync_everything ::
  "(string \<Rightarrow> string) \<Rightarrow> network \<Rightarrow> string \<Rightarrow> json \<Rightarrow> unit io" where
  "sync_everything md5_hex net DOWNLOAD_PATH all_files =
     (case all_files of
        JDict items \<Rightarrow> for_each (sync_category md5_hex net DOWNLOAD_PATH) items
      | _ \<Rightarrow> lift (Inl AttributeError))"

section \<open>sync.py\<close>

text \<open>
  \<^verbatim>\<open>download_file\<close>, \<^verbatim>\<open>verify_md5sum\<close> and \<^verbatim>\<open>calc_req_patches\<close> of sync.py are those of
  downloader.py, line for line. Its \<^verbatim>\<open>sync_everything\<close> differs: it asserts that the
  category is one of five, works in the current directory, and does not announce a
  download.
\<close>

definition sync_py_file :: "(string \<Rightarrow> string) \<Rightarrow> network \<Rightarrow> string \<Rightarrow> json \<Rightarrow> unit io" where
  "sync_py_file md5_hex net category file =
     andthen (lift (py_getitem file ''file_name'')) (\<lambda>file_name.
     andthen (lift (py_contains_char CHR ''/'' file_name)) (\<lambda>deep.
     if deep then
       andthen (lift (py_format file_name)) (\<lambda>s.
       print (''deep path, skipping: '' @ s))
     else
       andthen (lift (py_rpartition file_name CHR ''.'')) (\<lambda>parts.
       if snd (snd parts) \<in> set [''zip'', ''bz2''] then return ()
       else
         andthen (lift (py_add_str (category @ ''/'') file_name)) (\<lambda>target.
         andthen (lift (py_getitem file ''md5'')) (\<lambda>want_md5.
         andthen (verify_md5sum md5_hex target want_md5) (\<lambda>ok.
         andthen (if \<not> ok then
                    andthen (download_file net file_name target) (\<lambda>_. return ())
                  else return ()) (\<lambda>_.
         print target)))))))"

definition sync_py_category ::
  "(string \<Rightarrow> string) \<Rightarrow> network \<Rightarrow> string \<times> json \<Rightarrow> unit io" where
  "sync_py_category md5_hex net item =
     (let category = fst item; files = snd item in
      if category \<notin> set [''other'', ''ee-full'', ''ce-full'', ''ee-patch'', ''ce-patch''] then
        lift (Inl (AssertionError (''unknown category: '' @ category)))
      else
        andthen (os_path_exists category) (\<lambda>ex.
        andthen (if \<not> ex then os_mkdir category else return ()) (\<lambda>_.
        andthen (lift (flatten_files files)) (\<lambda>files.
        andthen (lift (py_iter files)) (\<lambda>each.
        andthen (for_each (sync_py_file md5_hex net category) each) (\<lambda>_.
        andthen (lift (py_len files)) (\<lambda>n.
        print (category @ '' '' @ str_nat n))))))))"

definition sync_py_everything :: "(string \<Rightarrow> string) \<Rightarrow> network \<Rightarrow> json \<Rightarrow> unit io" where
  "sync_py_everything md5_hex net all_files =
     (case all_files of
        JDict items \<Rightarrow> for_each (sync_py_category md5_hex net) items
      | _ \<Rightarrow> lift (Inl AttributeError))"

section \<open>calc_req_patches\<close>

text \<open>
  \<open>v2p\<close> is the \<^verbatim>\<open>defaultdict(set)\<close> from version to patches, in insertion order of its
  keys. A set holds its elements up to Python's equality, under which \<^verbatim>\<open>True\<close> is 1 and
  \<^verbatim>\<open>False\<close> is 0; lists and dicts cannot be elements.
\<close>

type_synonym v2p = "(string \<times> json set) list"

fun set_element :: "json \<Rightarrow> error + json" where
  "set_element (JList xs) = Inl TypeError"
| "set_element (JDict kvs) = Inl TypeError"
| "set_element (JBool b) = Inr (JInt (if b then 1 else 0))"
| "set_element x = Inr x"

text \<open>\<^verbatim>\<open>v2p[v].add(p)\<close>\<close>

fun v2p_add :: "string \<Rightarrow> json \<Rightarrow> v2p \<Rightarrow> v2p" where
  "v2p_add v p [] = [(v, {p})]"
| "v2p_add v p ((k, s) # rest) =
     (if k = v then (k, insert p s) # rest else (k, s) # v2p_add v p rest)"

text \<open>A loop that only updates a local variable, and may raise.\<close>

fun for_fold :: "('a \<Rightarrow> 's \<Rightarrow> error + 's) \<Rightarrow> 'a list \<Rightarrow> 's \<Rightarrow> error + 's" where
  "for_fold step [] s = Inr s"
| "for_fold step (x # xs) s = (case step x s of Inl e \<Rightarrow> Inl e | Inr s' \<Rightarrow> for_fold step xs s')"

definition endswith :: "string \<Rightarrow> string \<Rightarrow> bool" where
  "endswith s suffix = (drop (length s - length suffix) s = suffix)"

text \<open>\<^verbatim>\<open>[prefix + "{}".format(x) for x in xs]\<close>\<close>

fun format_each :: "string \<Rightarrow> json list \<Rightarrow> error + string list" where
  "format_each prefix [] = Inr []"
| "format_each prefix (x # xs) =
     (case py_format x of
        Inl e \<Rightarrow> Inl e
      | Inr s \<Rightarrow> (case format_each prefix xs of Inl e \<Rightarrow> Inl e | Inr ss \<Rightarrow> Inr ((prefix @ s) # ss)))"

text \<open>\<^verbatim>\<open>["EE {}".format(x) for x in file.get('ee_versions', ())]\<close>, and the same for CE.\<close>

definition version_keys :: "string \<Rightarrow> string \<Rightarrow> json \<Rightarrow> error + string list" where
  "version_keys prefix key file =
     (case py_get file key of
        Inl e \<Rightarrow> Inl e
      | Inr versions \<Rightarrow>
          (case py_iter versions of Inl e \<Rightarrow> Inl e | Inr xs \<Rightarrow> format_each prefix xs))"

text \<open>\<^verbatim>\<open>v2p[v].add(file['file_name'])\<close>, the body of the loop over \<^verbatim>\<open>ee + ce\<close>.\<close>

definition add_patch :: "json \<Rightarrow> string \<Rightarrow> v2p \<Rightarrow> error + v2p" where
  "add_patch file v v2p =
     (case py_getitem file ''file_name'' of
        Inl e \<Rightarrow> Inl e
      | Inr file_name \<Rightarrow>
          (case set_element file_name of Inl e \<Rightarrow> Inl e | Inr p \<Rightarrow> Inr (v2p_add v p v2p)))"

definition index_file :: "json \<Rightarrow> v2p \<Rightarrow> error + v2p" where
  "index_file file v2p =
     (case version_keys ''EE '' ''ee_versions'' file of
        Inl e \<Rightarrow> Inl e
      | Inr ee \<Rightarrow>
          (case version_keys ''CE '' ''ce_versions'' file of
             Inl e \<Rightarrow> Inl e
           | Inr ce \<Rightarrow> for_fold (add_patch file) (ee @ ce) v2p))"

definition index_category :: "string \<times> json \<Rightarrow> v2p \<Rightarrow> error + v2p" where
  "index_category item v2p =
     (let category = fst item; files = snd item in
      if \<not> endswith category ''-patch'' then Inr v2p
      else
        case flatten_files files of
          Inl e \<Rightarrow> Inl e
        | Inr files \<Rightarrow>
            (case py_iter files of Inl e \<Rightarrow> Inl e | Inr each \<Rightarrow> for_fold index_file each v2p))"

text \<open>
  \<^verbatim>\<open>calc_req_patches(all_files)\<close> prints and returns nothing. Its value here is
  \<^verbatim>\<open>sorted(v2p.items())\<close>, the list its last loop goes through: for each pair it prints
  the version and then, after a tab each, the patches of the set, in the order the set
  gives them, which Python does not fix. The keys of \<open>v2p\<close> are distinct, so the sort
  compares keys only. Nothing is printed when the function raises.
\<close>

definition calc_req_patches :: "json \<Rightarrow> error + (string \<times> json set) list" where
  "calc_req_patches all_files =
     (case all_files of
        JDict items \<Rightarrow>
          (case for_fold index_category items [] of
             Inl e \<Rightarrow> Inl e
           | Inr v2p \<Rightarrow> Inr (sort_key fst v2p))
      | _ \<Rightarrow> Inl AttributeError)"

section \<open>Observations\<close>

text \<open>The URLs requested in a trace, in order: one for each call of the Fetcher.\<close>

fun http_gets :: "event list \<Rightarrow> string list" where
  "http_gets [] = []"
| "http_gets (HttpGet url # es) = url # http_gets es"
| "http_gets (e # es) = http_gets es"

text \<open>
  A file name is sync-eligible when it has no path separator and its extension, the
  text after its last dot, is neither \<^verbatim>\<open>zip\<close> nor \<^verbatim>\<open>bz2\<close>: the two tests of
  \<^verbatim>\<open>sync_everything\<close> that end in \<^verbatim>\<open>continue\<close>.
\<close>

definition sync_eligible :: "string \<Rightarrow> bool" where
  "sync_eligible name =
     (CHR ''/'' \<notin> set name \<and> snd (snd (rpartition name CHR ''.'')) \<notin> set [''zip'', ''bz2''])"

definition file_url :: "string \<Rightarrow> string" where
  "file_url name =
     ''https://www.magentocommerce.com/products/downloads/file/'' @ concat (map quote_char name)"

text \<open>
  The vocabulary of the Patch Requirement Indexer. A patch entry is a dict with a string
  under \<^verbatim>\<open>file_name\<close> and, under \<^verbatim>\<open>ee_versions\<close> and under \<^verbatim>\<open>ce_versions\<close>, a list of
  strings or nothing. \<open>name_of\<close> and \<open>versions_of\<close> read such an entry, and \<open>keys_of\<close>
  gives the version keys it is filed under. The entries of a category value are those the
  loops go through, after flattening. The patch entries of a catalog are the entries of
  its categories whose name ends in \<^verbatim>\<open>-patch\<close>, in order.
\<close>

fun is_str :: "json \<Rightarrow> bool" where
  "is_str (JStr s) = True"
| "is_str _ = False"

fun str_of :: "json \<Rightarrow> string" where
  "str_of (JStr s) = s"
| "str_of _ = []"

definition name_of :: "json \<Rightarrow> string" where
  "name_of entry = (case py_getitem entry ''file_name'' of Inr v \<Rightarrow> str_of v | Inl e \<Rightarrow> [])"

definition versions_of :: "string \<Rightarrow> json \<Rightarrow> string list" where
  "versions_of key entry =
     (case py_get entry key of Inr (JList xs) \<Rightarrow> map str_of xs | _ \<Rightarrow> [])"

definition keys_of :: "json \<Rightarrow> string list" where
  "keys_of entry =
     map (\<lambda>v. ''EE '' @ v) (versions_of ''ee_versions'' entry)
       @ map (\<lambda>v. ''CE '' @ v) (versions_of ''ce_versions'' entry)"

definition is_version_list :: "string \<Rightarrow> json \<Rightarrow> bool" where
  "is_version_list key entry =
     (case py_get entry key of Inr (JList xs) \<Rightarrow> list_all is_str xs | _ \<Rightarrow> False)"

definition is_patch_entry :: "json \<Rightarrow> bool" where
  "is_patch_entry entry =
     ((case py_getitem entry ''file_name'' of Inr v \<Rightarrow> is_str v | Inl e \<Rightarrow> False)
      \<and> is_version_list ''ee_versions'' entry \<and> is_version_list ''ce_versions'' entry)"

definition entries_of :: "json \<Rightarrow> json list" where
  "entries_of files = (case flatten_files files of Inr (JList es) \<Rightarrow> es | _ \<Rightarrow> [])"

definition is_patch_list :: "json \<Rightarrow> bool" where
  "is_patch_list files =
     (case flatten_files files of Inr (JList es) \<Rightarrow> list_all is_patch_entry es | _ \<Rightarrow> False)"

definition patch_items :: "json \<Rightarrow> (string \<times> json) list" where
  "patch_items all_files =
     (case all_files of
        JDict items \<Rightarrow> filter (\<lambda>item. endswith (fst item) ''-patch'') items
      | _ \<Rightarrow> [])"

definition patch_entries :: "json \<Rightarrow> json list" where
  "patch_entries all_files = concat (map (\<lambda>item. entries_of (snd item)) (patch_items all_files))"

definition is_patch_catalog :: "json \<Rightarrow> bool" where
  "is_patch_catalog all_files =
     ((case all_files of JDict items \<Rightarrow> True | _ \<Rightarrow> False)
      \<and> list_all (\<lambda>item. is_patch_list (snd item)) (patch_items all_files))"

text \<open>The set \<open>v2p\<close> holds for a version; the empty set when the version is no key.\<close>

definition patches_at :: "v2p \<Rightarrow> string \<Rightarrow> json set" where
  "patches_at v2p v = (case map_of v2p v of None \<Rightarrow> {} | Some s \<Rightarrow> s)"

text \<open>The two patch entries of the example, under \<^verbatim>\<open>ee-patch\<close>, beside a full release.\<close>

definition patch_p1 :: json where
  "patch_p1 = JDict [(''file_name'', JStr ''p1''), (''ee_versions'', JList [JStr ''1.14.0''])]"

definition patch_p2 :: json where
  "patch_p2 = JDict [(''file_name'', JStr ''p2''), (''ee_versions'', JList [JStr ''1.14.0'']),
                           (''ce_versions'', JList [JStr ''1.9.0''])]"

definition catalog_patches :: json where
  "catalog_patches =
     JDict [(''ee-full'', JList [JDict [(''file_name'', JStr ''full.tgz''), (''ee_versions'', JList [JStr ''1.14.0''])]]),
            (''ee-patch'', JList [patch_p1, patch_p2])]"

section \<open>Example data\<close>

text \<open>
  The digests \<^verbatim>\<open>hashlib.md5\<close> gives for the one-byte contents \<^verbatim>\<open>x\<close> and \<^verbatim>\<open>y\<close>, as a
  function on those two contents; the examples instantiate \<open>md5_hex\<close> with it.
\<close>

definition md5_xy :: "string \<Rightarrow> string" where
  "md5_xy data =
     (if data = ''x'' then ''9dd4e461268c8034f5c8564e155c67a6''
      else ''415290769594460e2e485922904f345d'')"

text \<open>The entry \<^verbatim>\<open>{"file_name": "a.bin", "md5": <digest of x>}\<close> of the end-to-end scenario.\<close>

definition entry_a :: json where
  "entry_a = JDict [(''file_name'', JStr ''a.bin''), (''md5'', JStr ''9dd4e461268c8034f5c8564e155c67a6'')]"

text \<open>Further entries: a deep path, an excluded archive, a second file, an entry with an
  empty digest, and an entry without the key \<^verbatim>\<open>md5\<close>.\<close>

definition entry_evil :: json where
  "entry_evil = JDict [(''file_name'', JStr ''sub/dir/evil.bin''), (''md5'', JStr ''9dd4e461268c8034f5c8564e155c67a6'')]"

definition entry_zip :: json where
  "entry_zip = JDict [(''file_name'', JStr ''bundle.zip''), (''md5'', JStr ''9dd4e461268c8034f5c8564e155c67a6'')]"

definition entry_b :: json where
  "entry_b = JDict [(''file_name'', JStr ''b.bin''), (''md5'', JStr ''9dd4e461268c8034f5c8564e155c67a6'')]"

definition entry_nodigest :: json where
  "entry_nodigest = JDict [(''file_name'', JStr ''a.bin''), (''md5'', JStr '''')]"

definition entry_nokey :: json where
  "entry_nokey = JDict [(''file_name'', JStr ''a.bin'')]"

text \<open>A catalog with a key the scripts do not know, the category \<^verbatim>\<open>other\<close>, and one
  category that is synced.\<close>

definition catalog_legacy :: json where
  "catalog_legacy =
     JDict [(''legacy'', JList [entry_b]), (''other'', JList [entry_b]), (''ce-full'', JList [entry_a])]"

text \<open>Worlds with the download root and the category directory, and \<^verbatim>\<open>a.bin\<close> in three states.\<close>

definition world_absent :: world where
  "world_absent = \<lparr>fs = [''/d'' \<mapsto> Dir, ''/d/ce-full'' \<mapsto> Dir], trace = []\<rparr>"

definition world_with :: "node \<Rightarrow> world" where
  "world_with n = \<lparr>fs = [''/d'' \<mapsto> Dir, ''/d/ce-full'' \<mapsto> Dir, ''/d/ce-full/a.bin'' \<mapsto> n], trace = []\<rparr>"

text \<open>Servers: one that answers every request with the body \<^verbatim>\<open>x\<close>, one that knows no file,
  one that leaves the \<^verbatim>\<open>content-length\<close> header out.\<close>

definition net_ok :: network where
  "net_ok url = Inr \<lparr>status_code = 200, content_length = Length 1, body = ''x''\<rparr>"

definition net_404 :: network where
  "net_404 url = Inr \<lparr>status_code = 404, content_length = Length 9, body = ''Not Found''\<rparr>"

definition net_chunked :: network where
  "net_chunked url = Inr \<lparr>status_code = 200, content_length = NoLength, body = ''x''\<rparr>"

section \<open>Basic facts\<close>

lemma andthen_lift_Inr [simp]: "andthen (lift (Inr x)) f w = f x w"
  by (simp add: andthen_def lift_def)

lemma andthen_lift_Inl [simp]: "andthen (lift (Inl e)) f w = (Inl e, w)"
  by (simp add: andthen_def lift_def)

lemma andthen_return [simp]: "andthen (return x) f w = f x w"
  by (simp add: andthen_def return_def)

lemma andthen_print [simp]: "andthen (print s) f w = f () (emit (Print s) w)"
  by (simp add: andthen_def print_def)

lemma andthen_exists [simp]: "andthen (os_path_exists p) f w = f (fs w p \<noteq> None) w"
  by (simp add: andthen_def os_path_exists_def)

lemma andthen_read_file [simp]:
  "andthen (read_file p) f w =
     (case fs w p of
        None \<Rightarrow> (Inl FileNotFoundError, w)
      | Some Dir \<Rightarrow> (Inl IsADirectoryError, w)
      | Some (File r wr d) \<Rightarrow> if r then f d w else (Inl PermissionError, w))"
  by (simp add: andthen_def read_file_def split: option.splits node.splits)

lemma andthen_requests_get [simp]:
  "andthen (requests_get net url) f w =
     (case net url of
        Inl e \<Rightarrow> (Inl e, emit (HttpGet url) w)
      | Inr resp \<Rightarrow> f resp (emit (HttpGet url) w))"
  by (simp add: andthen_def requests_get_def split: sum.splits)

lemma fs_emit [simp]: "fs (emit e w) = fs w"
  by (simp add: emit_def)

lemma trace_emit [simp]: "trace (emit e w) = trace w @ [e]"
  by (simp add: emit_def)

lemma http_gets_append [simp]: "http_gets (xs @ ys) = http_gets xs @ http_gets ys"
  by (induction xs rule: http_gets.induct) simp_all

lemma verify_md5sum_eq:
  "verify_md5sum md5_hex p want w =
     (case fs w p of
        None \<Rightarrow> (Inr False, emit (Print (''file does not exist: '' @ p)) w)
      | Some n \<Rightarrow>
          if \<not> truthy want then (Inr True, w)
          else (case n of
                  Dir \<Rightarrow> (Inl IsADirectoryError, w)
                | File r wr d \<Rightarrow>
                    if \<not> r then (Inl PermissionError, w)
                    else if JStr (md5_hex d) = want then (Inr True, w)
                    else (Inr False,
                          emit (Print (''file '' @ p @ '' exists but has different checksum '' @ md5_hex d)) w)))"
  by (simp add: verify_md5sum_def return_def Let_def split: option.splits node.splits)

lemma write_file_cases:
  "write_file p d w = (r, w') \<Longrightarrow>
     (\<exists>e. r = Inl e \<and> w' = w) \<or>
     (r = Inr () \<and> trace w' = trace w @ [Write p d] \<and> (\<exists>n. fs w' = (fs w)(p \<mapsto> n)))"
  by (auto simp: write_file_def split: option.splits node.splits if_splits)

lemma download_file_eq:
  "download_file net (JStr name) path w =
     (let url = file_url name; w1 = emit (HttpGet url) (emit (Print (''Downloading '' @ url)) w) in
      case net url of
        Inl e \<Rightarrow> (Inl e, w1)
      | Inr resp \<Rightarrow>
          if status_code resp \<noteq> 200
          then (Inr (Some False),
                emit (Print (''Status code '' @ str_int (status_code resp) @ '' for '' @ url @ '', aborting'')) w1)
          else (case totalsize_of (content_length resp) of
                  Inl e \<Rightarrow> (Inl e, w1)
                | Inr totalsize \<Rightarrow>
                    (case write_file path (body resp) w1 of
                       (Inl e, w2) \<Rightarrow> (Inl e, w2)
                     | (Inr u, w2) \<Rightarrow> (Inr None, emit (Print (''Saved '' @ path)) w2))))"
  by (simp add: download_file_def file_url_def Let_def return_def andthen_def [of "write_file path b" for b]
           split: sum.splits prod.splits)

lemma download_file_gets:
  "http_gets (trace (snd (download_file net (JStr name) path w))) = http_gets (trace w) @ [file_url name]"
  by (auto simp: download_file_eq Let_def split: sum.splits prod.splits dest!: write_file_cases)

lemma download_file_fs:
  "fs (snd (download_file net (JStr name) path w)) q \<noteq> fs w q \<Longrightarrow> q = path"
  by (auto simp: download_file_eq Let_def split: sum.splits prod.splits if_splits dest!: write_file_cases)


lemma sync_file_eq:
  assumes "py_getitem entry ''file_name'' = Inr (JStr name)"
  shows "sync_file md5_hex net category_path entry w =
     (if CHR ''/'' \<in> set name then (Inr (), emit (Print (''deep path, skipping: '' @ name)) w)
      else if snd (snd (rpartition name CHR ''.'')) \<in> set [''zip'', ''bz2''] then (Inr (), w)
      else (case py_getitem entry ''md5'' of
              Inl e \<Rightarrow> (Inl e, w)
            | Inr want \<Rightarrow>
               (case verify_md5sum md5_hex (category_path @ ''/'' @ name) want w of
                  (Inl e, w1) \<Rightarrow> (Inl e, w1)
                | (Inr ok, w1) \<Rightarrow>
                    if ok then (Inr (), emit (Print (category_path @ ''/'' @ name)) w1)
                    else (case download_file net (JStr name) (category_path @ ''/'' @ name)
                                 (emit (Print (''md5 mismatch for '' @ name @ '', redownloading!'')) w1) of
                            (Inl e, w2) \<Rightarrow> (Inl e, w2)
                          | (Inr r, w2) \<Rightarrow> (Inr (), emit (Print (category_path @ ''/'' @ name)) w2)))))"
  using assms
  by (simp add: sync_file_def print_def return_def
        andthen_def [of "verify_md5sum m t x" for m t x]
        andthen_def [of "download_file n f t" for n f t]
        andthen_def [of "if b then x else y" for b x y]
      split: sum.splits prod.splits)

lemma verify_md5sum_fs [simp]: "fs (snd (verify_md5sum md5_hex p want w)) = fs w"
  by (simp add: verify_md5sum_eq split: option.splits node.splits)

lemma sync_file_no_name:
  assumes "\<And>name. py_getitem entry ''file_name'' \<noteq> Inr (JStr name)"
  shows "snd (sync_file md5_hex net category_path entry w) = w"
proof (cases "py_getitem entry ''file_name''")
  case (Inl e)
  then show ?thesis by (simp add: sync_file_def)
next
  case (Inr v)
  with assms show ?thesis
    by (cases v) (auto simp: sync_file_def print_def)
qed

lemma sync_file_fs_eligible:
  assumes n: "py_getitem entry ''file_name'' = Inr (JStr name)" and e: "sync_eligible name"
  shows "fs (snd (sync_file md5_hex net category_path entry w)) q = fs w q
       \<or> q = category_path @ ''/'' @ name"
proof (cases "py_getitem entry ''md5''")
  case (Inl err)
  with n e show ?thesis by (simp add: sync_file_eq sync_eligible_def)
next
  case (Inr want)
  obtain rv w1 where v: "verify_md5sum md5_hex (category_path @ ''/'' @ name) want w = (rv, w1)"
    by (cases "verify_md5sum md5_hex (category_path @ ''/'' @ name) want w")
  then have f1: "fs w1 = fs w"
    using verify_md5sum_fs [of md5_hex "category_path @ ''/'' @ name" want w] by simp
  obtain rd w2 where d: "download_file net (JStr name) (category_path @ ''/'' @ name)
        (emit (Print (''md5 mismatch for '' @ name @ '', redownloading!'')) w1) = (rd, w2)"
    by (cases "download_file net (JStr name) (category_path @ ''/'' @ name)
        (emit (Print (''md5 mismatch for '' @ name @ '', redownloading!'')) w1)")
  have f2: "fs w2 q = fs w q \<or> q = category_path @ ''/'' @ name"
    using download_file_fs [of net name "category_path @ ''/'' @ name"
        "emit (Print (''md5 mismatch for '' @ name @ '', redownloading!'')) w1" q] d f1
    by auto
  have "snd (sync_file md5_hex net category_path entry w) = w1
      \<or> snd (sync_file md5_hex net category_path entry w) = emit (Print (category_path @ ''/'' @ name)) w1
      \<or> snd (sync_file md5_hex net category_path entry w) = w2
      \<or> snd (sync_file md5_hex net category_path entry w) = emit (Print (category_path @ ''/'' @ name)) w2"
    using n e Inr v [simplified] d [simplified]
    by (cases rv; cases rd) (auto simp: sync_file_eq sync_eligible_def)
  with f1 f2 show ?thesis by auto
qed

lemma sync_file_fs:
  assumes "fs (snd (sync_file md5_hex net category_path entry w)) q \<noteq> fs w q"
  shows "\<exists>name. py_getitem entry ''file_name'' = Inr (JStr name) \<and> sync_eligible name
           \<and> q = category_path @ ''/'' @ name"
proof -
  from assms obtain name where n: "py_getitem entry ''file_name'' = Inr (JStr name)"
    using sync_file_no_name [of entry md5_hex net category_path w] by fastforce
  have e: "sync_eligible name"
    using assms n by (auto simp: sync_file_eq sync_eligible_def split: if_splits)
  from sync_file_fs_eligible [OF n e, of md5_hex net category_path w q] assms n e
  show ?thesis by blast
qed

lemma for_each_append:
  "for_each step (xs @ ys) w =
     (case for_each step xs w of (Inl e, w') \<Rightarrow> (Inl e, w') | (Inr u, w') \<Rightarrow> for_each step ys w')"
  by (induction xs arbitrary: w) (auto split: prod.splits sum.splits)

lemma for_each_fs:
  assumes "\<And>x w. x \<in> set xs \<Longrightarrow> fs (snd (step x w)) q = fs w q"
  shows "fs (snd (for_each step xs w)) q = fs w q"
  using assms
proof (induction xs arbitrary: w)
  case Nil
  then show ?case by simp
next
  case (Cons x xs)
  obtain r w' where s: "step x w = (r, w')" by (cases "step x w")
  with Cons.prems [of x w] have "fs w' q = fs w q" by simp
  moreover have "fs (snd (for_each step xs w')) q = fs w' q"
    using Cons.IH Cons.prems by simp
  ultimately show ?case using s by (cases r) simp_all
qed

lemma os_mkdir_fs: "fs (snd (os_mkdir p w)) q \<noteq> fs w q \<Longrightarrow> q = p"
  by (auto simp: os_mkdir_def split: option.splits if_splits)

lemma sync_category_unknown:
  "c \<notin> set CATEGORIES \<Longrightarrow>
     sync_category md5_hex net root (c, files) w
       = (Inr (), emit (Print (''unknown category: '' @ c @ '', skipping...'')) w)"
  by (simp add: sync_category_def print_def)

lemma sync_category_eq:
  assumes "c \<in> set CATEGORIES"
  shows "sync_category md5_hex net root (c, files) w =
     (case (if fs w (root @ ''/'' @ c) = None then os_mkdir (root @ ''/'' @ c) w else (Inr (), w)) of
        (Inl e, wm) \<Rightarrow> (Inl e, wm)
      | (Inr u, wm) \<Rightarrow>
          (case flatten_files files of
             Inl e \<Rightarrow> (Inl e, wm)
           | Inr flat \<Rightarrow>
               (case py_iter flat of
                  Inl e \<Rightarrow> (Inl e, wm)
                | Inr each \<Rightarrow>
                    (case for_each (sync_file md5_hex net (root @ ''/'' @ c)) each wm of
                       (Inl e, wl) \<Rightarrow> (Inl e, wl)
                     | (Inr u, wl) \<Rightarrow>
                         (case py_len flat of
                            Inl e \<Rightarrow> (Inl e, wl)
                          | Inr n \<Rightarrow> (Inr (), emit (Print (root @ ''/'' @ c @ '' '' @ str_nat n)) wl))))))"
  using assms
  by (simp add: sync_category_def Let_def print_def return_def
        andthen_def [of "os_mkdir p" for p] andthen_def [of "for_each s xs" for s xs]
      split: sum.splits prod.splits)

lemma sync_category_fs:
  assumes "fs (snd (sync_category md5_hex net root (c, files) w)) q \<noteq> fs w q"
  shows "c \<in> set CATEGORIES \<and>
         (q = root @ ''/'' @ c \<or> (\<exists>name. sync_eligible name \<and> q = root @ ''/'' @ c @ ''/'' @ name))"
proof -
  have c: "c \<in> set CATEGORIES"
    using assms by (rule contrapos_np) (simp add: sync_category_unknown)
  have "q = root @ ''/'' @ c \<or> (\<exists>name. sync_eligible name \<and> q = root @ ''/'' @ c @ ''/'' @ name)"
  proof (rule ccontr)
    assume n: "\<not> ?thesis"
    define cp where "cp = root @ ''/'' @ c"
    have m: "fs (snd (os_mkdir cp w0)) q = fs w0 q" for w0
      using os_mkdir_fs [of cp w0 q] n by (auto simp: cp_def)
    have l: "fs (snd (for_each (sync_file md5_hex net cp) each w0)) q = fs w0 q" for each w0
    proof (rule for_each_fs)
      fix x w1
      show "fs (snd (sync_file md5_hex net cp x w1)) q = fs w1 q"
        using sync_file_fs [of md5_hex net cp x w1 q] n by (auto simp: cp_def)
    qed
    obtain rm wm where om: "(if fs w cp = None then os_mkdir cp w else (Inr (), w)) = (rm, wm)"
      by (cases "(if fs w cp = None then os_mkdir cp w else (Inr (), w))")
    have fm: "fs wm q = fs w q"
      using om m [of w] by (auto split: if_splits)
    have e: "sync_category md5_hex net root (c, files) w =
     (case (rm, wm) of
        (Inl e, wm) \<Rightarrow> (Inl e, wm)
      | (Inr u, wm) \<Rightarrow>
          (case flatten_files files of
             Inl e \<Rightarrow> (Inl e, wm)
           | Inr flat \<Rightarrow>
               (case py_iter flat of
                  Inl e \<Rightarrow> (Inl e, wm)
                | Inr each \<Rightarrow>
                    (case for_each (sync_file md5_hex net cp) each wm of
                       (Inl e, wl) \<Rightarrow> (Inl e, wl)
                     | (Inr u, wl) \<Rightarrow>
                         (case py_len flat of
                            Inl e \<Rightarrow> (Inl e, wl)
                          | Inr n \<Rightarrow> (Inr (), emit (Print (root @ ''/'' @ c @ '' '' @ str_nat n)) wl))))))"
      unfolding om [symmetric] cp_def by (rule sync_category_eq [OF c])
    have l': "fs wl q = fs w q" if "for_each (sync_file md5_hex net cp) each wm = (rl, wl)" for each rl wl
      using l [of each wm] that fm by simp
    have "fs (snd (sync_category md5_hex net root (c, files) w)) q = fs w q"
      unfolding e using fm l'
      by (auto split: sum.splits prod.splits)
    with assms show False by simp
  qed
  with c show ?thesis by simp
qed

lemma sync_everything_fs:
  assumes "fs (snd (sync_everything md5_hex net root all_files w)) q \<noteq> fs w q"
  shows "\<exists>c \<in> set CATEGORIES.
           q = root @ ''/'' @ c \<or> (\<exists>name. sync_eligible name \<and> q = root @ ''/'' @ c @ ''/'' @ name)"
proof (rule ccontr)
  assume n: "\<not> ?thesis"
  have "fs (snd (sync_category md5_hex net root item w0)) q = fs w0 q" for item w0
    using sync_category_fs [of md5_hex net root "fst item" "snd item" w0 q] n by auto
  then have "fs (snd (for_each (sync_category md5_hex net root) items w)) q = fs w q" for items
    by (intro for_each_fs)
  then have "fs (snd (sync_everything md5_hex net root all_files w)) q = fs w q"
    by (cases all_files) (simp_all add: sync_everything_def lift_def)
  with assms show False by simp
qed

lemma sync_py_category_unknown:
  "c \<notin> set [''other'', ''ee-full'', ''ce-full'', ''ee-patch'', ''ce-patch''] \<Longrightarrow>
     sync_py_category md5_hex net (c, files) w = (Inl (AssertionError (''unknown category: '' @ c)), w)"
  by (simp add: sync_py_category_def lift_def)

section \<open>The Checksum Verifier\<close>

text \<open>
  Claim C1, as the code has it. \<^verbatim>\<open>verify_md5sum(path, expected_digest)\<close> returns false
  whenever no file exists at \<open>path\<close>; it returns true whenever the path exists and the
  expected digest is absent or empty (\<^verbatim>\<open>None\<close> and the empty string are both false for
  \<^verbatim>\<open>not\<close>); and otherwise, when the content of the file can be read, it returns true
  exactly when the hex digest of the whole content equals the expected digest as a string,
  and on a mismatch it prints a diagnostic that names the path and the computed digest and
  returns false without raising. The comparison is exact: the digest of \<^verbatim>\<open>x\<close> written in
  upper case does not match. The claim states the last case for every existing file; it
  holds for those that can be read.
\<close>

theorem verify_md5sum_contract:
  "(fs w path = None \<longrightarrow>
      verify_md5sum md5_hex path want w = (Inr False, emit (Print (''file does not exist: '' @ path)) w))
   \<and> (fs w path \<noteq> None \<and> \<not> truthy want \<longrightarrow> verify_md5sum md5_hex path want w = (Inr True, w))
   \<and> \<not> truthy JNull \<and> \<not> truthy (JStr [])
   \<and> (fs w path = Some (File True wr data) \<and> truthy want \<longrightarrow>
        verify_md5sum md5_hex path want w =
          (Inr (JStr (md5_hex data) = want),
           if JStr (md5_hex data) = want then w
           else emit (Print (''file '' @ path @ '' exists but has different checksum '' @ md5_hex data)) w))
   \<and> fst (verify_md5sum md5_xy ''/d/ce-full/a.bin'' (JStr ''9DD4E461268C8034F5C8564E155C67A6'')
             (world_with (File True True ''x''))) = Inr False"
  by (auto simp: verify_md5sum_def return_def Let_def world_with_def md5_xy_def)

theorem verify_md5sum_contract_witness:
  "verify_md5sum md5_xy ''/d/ce-full/a.bin'' (JStr ''9dd4e461268c8034f5c8564e155c67a6'') world_absent
     = (Inr False, emit (Print ''file does not exist: /d/ce-full/a.bin'') world_absent)
   \<and> verify_md5sum md5_xy ''/d/ce-full/a.bin'' JNull (world_with (File True True ''y''))
     = (Inr True, world_with (File True True ''y''))
   \<and> verify_md5sum md5_xy ''/d/ce-full/a.bin'' (JStr ''9dd4e461268c8034f5c8564e155c67a6'')
        (world_with (File True True ''x''))
     = (Inr True, world_with (File True True ''x''))
   \<and> verify_md5sum md5_xy ''/d/ce-full/a.bin'' (JStr ''9dd4e461268c8034f5c8564e155c67a6'')
        (world_with (File True True ''y''))
     = (Inr False,
        emit (Print ''file /d/ce-full/a.bin exists but has different checksum 415290769594460e2e485922904f345d'')
          (world_with (File True True ''y'')))"
  using verify_md5sum_contract [where w = world_absent and path = "''/d/ce-full/a.bin''"
          and md5_hex = md5_xy and want = "JStr ''9dd4e461268c8034f5c8564e155c67a6''"]
        verify_md5sum_contract [where w = "world_with (File True True ''y'')" and path = "''/d/ce-full/a.bin''"
          and md5_hex = md5_xy and want = JNull]
        verify_md5sum_contract [where w = "world_with (File True True ''x'')" and path = "''/d/ce-full/a.bin''"
          and md5_hex = md5_xy and want = "JStr ''9dd4e461268c8034f5c8564e155c67a6''"
          and wr = True and data = "''x''"]
        verify_md5sum_contract [where w = "world_with (File True True ''y'')" and path = "''/d/ce-full/a.bin''"
          and md5_hex = md5_xy and want = "JStr ''9dd4e461268c8034f5c8564e155c67a6''"
          and wr = True and data = "''y''"]
  by (simp add: world_absent_def world_with_def md5_xy_def)

text \<open>
  A file that exists, holds \<^verbatim>\<open>x\<close> and may not be read, with the digest of \<^verbatim>\<open>x\<close> to
  compare: the digests are equal, and the call raises PermissionError instead of
  returning true.
\<close>

theorem verify_md5sum_contract_counterexample:
  "fs (world_with (File False False ''x'')) ''/d/ce-full/a.bin'' \<noteq> None
   \<and> truthy (JStr ''9dd4e461268c8034f5c8564e155c67a6'')
   \<and> md5_xy (content (File False False ''x'')) = ''9dd4e461268c8034f5c8564e155c67a6''
   \<and> fst (verify_md5sum md5_xy ''/d/ce-full/a.bin'' (JStr ''9dd4e461268c8034f5c8564e155c67a6'')
            (world_with (File False False ''x''))) = Inl PermissionError"
  by (simp add: verify_md5sum_eq world_with_def md5_xy_def)

text \<open>
  Claim C8, as the code has it. The claim says that a path that exists but cannot be read
  counts as a mismatch: the verifier returns false and raises nothing. The code has no
  handler around \<^verbatim>\<open>open\<close> and \<^verbatim>\<open>read\<close>. So for a path that exists and whose content
  cannot be read, the file is not treated as a mismatch: with an absent or empty digest
  the verifier returns true without opening the file, and with a digest to compare the
  exception raised by reading the file reaches the caller.
\<close>

theorem verify_md5sum_unreadable:
  assumes "fs w path \<noteq> None" and "fst (read_file path w) = Inl e"
  shows "verify_md5sum md5_hex path want w = (if truthy want then (Inl e, w) else (Inr True, w))"
  using assms
  by (auto simp: verify_md5sum_eq read_file_def split: option.splits node.splits if_splits)

text \<open>
  A file without read permission: with a digest to compare the call raises
  PermissionError, and with an empty digest it returns true; in neither case false.
\<close>

theorem verify_md5sum_unreadable_counterexample:
  "fst (verify_md5sum md5_xy ''/d/ce-full/a.bin'' (JStr ''9dd4e461268c8034f5c8564e155c67a6'')
          (world_with (File False True ''x''))) = Inl PermissionError
   \<and> fst (verify_md5sum md5_xy ''/d/ce-full/a.bin'' (JStr [])
          (world_with (File False True ''x''))) = Inr True"
  by (simp add: verify_md5sum_eq world_with_def)

theorem verify_md5sum_unreadable_witness:
  "verify_md5sum md5_xy ''/d/ce-full'' (JStr ''9dd4e461268c8034f5c8564e155c67a6'') world_absent
     = (Inl IsADirectoryError, world_absent)
   \<and> verify_md5sum md5_xy ''/d/ce-full/a.bin'' (JStr []) (world_with (File False False ''x''))
     = (Inr True, world_with (File False False ''x''))"
proof -
  have d: "fs world_absent ''/d/ce-full'' \<noteq> None"
    and rd: "fst (read_file ''/d/ce-full'' world_absent) = Inl IsADirectoryError"
    and f: "fs (world_with (File False False ''x'')) ''/d/ce-full/a.bin'' \<noteq> None"
    and rf: "fst (read_file ''/d/ce-full/a.bin'' (world_with (File False False ''x''))) = Inl PermissionError"
    by (simp_all add: world_absent_def world_with_def read_file_def)
  show ?thesis
    using verify_md5sum_unreadable [OF d rd, where md5_hex = md5_xy
            and want = "JStr ''9dd4e461268c8034f5c8564e155c67a6''"]
          verify_md5sum_unreadable [OF f rf, where md5_hex = md5_xy and want = "JStr []"]
    by simp
qed

section \<open>The Sync Planner, entry by entry\<close>

text \<open>
  Claim C2, as the code has it. Let an entry be sync-eligible and have the key \<^verbatim>\<open>md5\<close>,
  with the value \<open>want\<close> under it, and let the target be the category directory, a
  slash and the file name. If \<^verbatim>\<open>verify_md5sum(target, want)\<close> returns true, the step for
  the entry ends normally and requests no URL. If no file exists at the target,
  \<^verbatim>\<open>verify_md5sum\<close> returns false and the step requests exactly one URL, that of the
  file, whatever the server then answers. The claim states this for every sync-eligible
  entry; it holds for those that have the key.
\<close>

theorem sync_file_fetch_when_verify_fails:
  assumes "py_getitem entry ''file_name'' = Inr (JStr name)"
    and "sync_eligible name"
    and "py_getitem entry ''md5'' = Inr want"
  shows "(fst (verify_md5sum md5_hex (category_path @ ''/'' @ name) want w) = Inr True \<longrightarrow>
            fst (sync_file md5_hex net category_path entry w) = Inr ()
          \<and> http_gets (trace (snd (sync_file md5_hex net category_path entry w))) = http_gets (trace w))
       \<and> (fs w (category_path @ ''/'' @ name) = None \<longrightarrow>
            fst (verify_md5sum md5_hex (category_path @ ''/'' @ name) want w) = Inr False
          \<and> http_gets (trace (snd (sync_file md5_hex net category_path entry w)))
              = http_gets (trace w) @ [file_url name])"
proof (intro conjI impI)
  assume v: "fst (verify_md5sum md5_hex (category_path @ ''/'' @ name) want w) = Inr True"
  then obtain w1 where w1: "verify_md5sum md5_hex (category_path @ ''/'' @ name) want w = (Inr True, w1)"
    by (cases "verify_md5sum md5_hex (category_path @ ''/'' @ name) want w") auto
  then have "w1 = w"
    by (auto simp: verify_md5sum_eq split: option.splits node.splits if_splits)
  with w1 assms show "fst (sync_file md5_hex net category_path entry w) = Inr ()"
    and "http_gets (trace (snd (sync_file md5_hex net category_path entry w))) = http_gets (trace w)"
    by (simp_all add: sync_file_eq sync_eligible_def)
next
  assume n: "fs w (category_path @ ''/'' @ name) = None"
  then show "fst (verify_md5sum md5_hex (category_path @ ''/'' @ name) want w) = Inr False"
    by (simp add: verify_md5sum_eq)
  from n have v: "verify_md5sum md5_hex (category_path @ ''/'' @ name) want w
      = (Inr False, emit (Print (''file does not exist: '' @ category_path @ ''/'' @ name)) w)"
    by (simp add: verify_md5sum_eq)
  define w2 where "w2 = emit (Print (''md5 mismatch for '' @ name @ '', redownloading!''))
           (emit (Print (''file does not exist: '' @ category_path @ ''/'' @ name)) w)"
  obtain r w3 where d: "download_file net (JStr name) (category_path @ ''/'' @ name) w2 = (r, w3)"
    by (cases "download_file net (JStr name) (category_path @ ''/'' @ name) w2")
  have g: "http_gets (trace w3) = http_gets (trace w) @ [file_url name]"
    using download_file_gets [of net name "category_path @ ''/'' @ name" w2] d
    by (simp add: w2_def)
  have "snd (sync_file md5_hex net category_path entry w) = w3
      \<or> snd (sync_file md5_hex net category_path entry w) = emit (Print (category_path @ ''/'' @ name)) w3"
    using assms d [unfolded w2_def, simplified]
    by (cases r) (simp_all add: sync_file_eq sync_eligible_def v [simplified])
  with g show "http_gets (trace (snd (sync_file md5_hex net category_path entry w)))
      = http_gets (trace w) @ [file_url name]"
    by auto
qed

text \<open>
  A sync-eligible entry without the key \<^verbatim>\<open>md5\<close>, its target absent: \<^verbatim>\<open>file['md5']\<close>
  raises KeyError before the verifier is called, and no URL is requested.
\<close>

theorem sync_file_fetch_when_verify_fails_counterexample:
  "sync_eligible ''b.bin''
   \<and> fs world_absent ''/d/ce-full/b.bin'' = None
   \<and> fst (sync_file md5_xy net_ok ''/d/ce-full'' (JDict [(''file_name'', JStr ''b.bin'')]) world_absent)
       = Inl (KeyError ''md5'')
   \<and> http_gets (trace (snd (sync_file md5_xy net_ok ''/d/ce-full''
         (JDict [(''file_name'', JStr ''b.bin'')]) world_absent))) = []"
  by code_simp

theorem sync_file_fetch_when_verify_fails_witness:
  "fst (sync_file md5_xy net_ok ''/d/ce-full'' entry_a (world_with (File True True ''x''))) = Inr ()
   \<and> http_gets (trace (snd (sync_file md5_xy net_ok ''/d/ce-full'' entry_a (world_with (File True True ''x''))))) = []
   \<and> fst (verify_md5sum md5_xy ''/d/ce-full/a.bin'' (JStr ''9dd4e461268c8034f5c8564e155c67a6'') world_absent)
       = Inr False
   \<and> http_gets (trace (snd (sync_file md5_xy net_ok ''/d/ce-full'' entry_a world_absent))) = [file_url ''a.bin'']"
  using sync_file_fetch_when_verify_fails [where entry = entry_a and name = "''a.bin''"
          and want = "JStr ''9dd4e461268c8034f5c8564e155c67a6''" and md5_hex = md5_xy
          and category_path = "''/d/ce-full''" and net = net_ok and w = "world_with (File True True ''x'')"]
        sync_file_fetch_when_verify_fails [where entry = entry_a and name = "''a.bin''"
          and want = "JStr ''9dd4e461268c8034f5c8564e155c67a6''" and md5_hex = md5_xy
          and category_path = "''/d/ce-full''" and net = net_ok and w = world_absent]
  by (simp add: entry_a_def sync_eligible_def rpartition_def verify_md5sum_eq world_with_def
        world_absent_def md5_xy_def)

text \<open>
  Claim C10. A file name that is exactly \<^verbatim>\<open>zip\<close> or \<^verbatim>\<open>bz2\<close> has no dot, so
  \<^verbatim>\<open>rpartition('.')\<close> gives the whole name as its third component, the extension test
  succeeds, and the step skips the entry silently: nothing is printed, nothing is
  requested, nothing is read from the entry but its name. Both scripts do so.
\<close>

theorem bare_zip_name_skipped:
  assumes "py_getitem entry ''file_name'' = Inr (JStr name)"
    and "name = ''zip'' \<or> name = ''bz2''"
  shows "rpartition name CHR ''.'' = ([], [], name)
       \<and> sync_file md5_hex net category_path entry w = (Inr (), w)
       \<and> sync_py_file md5_hex net category entry w = (Inr (), w)"
  using assms
  by (auto simp: sync_file_def sync_py_file_def rpartition_def return_def)

theorem bare_zip_name_skipped_witness:
  "sync_file md5_xy net_ok ''/d/ce-full'' (JDict [(''file_name'', JStr ''zip''), (''md5'', JStr ''00'')]) world_absent
     = (Inr (), world_absent)
   \<and> sync_py_file md5_xy net_ok ''ce-full'' (JDict [(''file_name'', JStr ''bz2'')]) world_absent
     = (Inr (), world_absent)"
  using bare_zip_name_skipped [where entry = "JDict [(''file_name'', JStr ''zip''), (''md5'', JStr ''00'')]"
          and name = "''zip''" and md5_hex = md5_xy and net = net_ok and category_path = "''/d/ce-full''"
          and w = world_absent]
        bare_zip_name_skipped [where entry = "JDict [(''file_name'', JStr ''bz2'')]"
          and name = "''bz2''" and md5_hex = md5_xy and net = net_ok and category = "''ce-full''"
          and w = world_absent]
  by simp

text \<open>
  Claim C4. An entry whose file name contains a slash is skipped with the diagnostic
  \<^verbatim>\<open>deep path, skipping: ...\<close>: the step ends normally and changes no file. An entry
  whose extension is \<^verbatim>\<open>zip\<close> or \<^verbatim>\<open>bz2\<close> is skipped silently, whether its target
  exists or not: nothing is printed and nothing is requested. And whatever the entry is,
  the only path at which the step for it can change the file system is the category
  directory, a slash and the file name, for a file name that is sync-eligible.
\<close>

theorem sync_file_only_writes_target:
  "(py_getitem entry ''file_name'' = Inr (JStr name) \<and> CHR ''/'' \<in> set name \<longrightarrow>
      sync_file md5_hex net category_path entry w
        = (Inr (), emit (Print (''deep path, skipping: '' @ name)) w))
   \<and> (py_getitem entry ''file_name'' = Inr (JStr name) \<and> CHR ''/'' \<notin> set name
        \<and> snd (snd (rpartition name CHR ''.'')) \<in> set [''zip'', ''bz2''] \<longrightarrow>
      sync_file md5_hex net category_path entry w = (Inr (), w))
   \<and> (\<forall>q. fs (snd (sync_file md5_hex net category_path entry w)) q \<noteq> fs w q \<longrightarrow>
        (\<exists>n. py_getitem entry ''file_name'' = Inr (JStr n) \<and> sync_eligible n
           \<and> q = category_path @ ''/'' @ n))"
  using sync_file_fs [of md5_hex net category_path entry w]
  by (auto simp: sync_file_eq)

theorem sync_file_only_writes_target_witness:
  "sync_file md5_xy net_ok ''/d/ce-full'' entry_evil world_absent
     = (Inr (), emit (Print ''deep path, skipping: sub/dir/evil.bin'') world_absent)
   \<and> sync_file md5_xy net_ok ''/d/ce-full'' entry_zip world_absent = (Inr (), world_absent)
   \<and> sync_eligible ''a.bin''"
proof -
  have evil: "py_getitem entry_evil ''file_name'' = Inr (JStr ''sub/dir/evil.bin'')
      \<and> CHR ''/'' \<in> set ''sub/dir/evil.bin''"
    by code_simp
  have zip: "py_getitem entry_zip ''file_name'' = Inr (JStr ''bundle.zip'')
      \<and> CHR ''/'' \<notin> set ''bundle.zip''
      \<and> snd (snd (rpartition ''bundle.zip'' CHR ''.'')) \<in> set [''zip'', ''bz2'']"
    by code_simp
  have changed: "fs (snd (sync_file md5_xy net_ok ''/d/ce-full'' entry_a world_absent)) ''/d/ce-full/a.bin''
      \<noteq> fs world_absent ''/d/ce-full/a.bin''"
    by code_simp
  have name: "py_getitem entry_a ''file_name'' = Inr (JStr ''a.bin'')"
    by code_simp
  show ?thesis
    using sync_file_only_writes_target [where entry = entry_evil and name = "''sub/dir/evil.bin''"
          and md5_hex = md5_xy and net = net_ok and category_path = "''/d/ce-full''" and w = world_absent]
        sync_file_only_writes_target [where entry = entry_zip and name = "''bundle.zip''"
          and md5_hex = md5_xy and net = net_ok and category_path = "''/d/ce-full''" and w = world_absent]
        sync_file_only_writes_target [where entry = entry_a and name = "''a.bin''"
          and md5_hex = md5_xy and net = net_ok and category_path = "''/d/ce-full''" and w = world_absent]
        evil zip changed name
    by auto
qed

text \<open>
  Claim C7, as the code has it. The claim speaks of an entry whose \<^verbatim>\<open>md5\<close> field is
  absent or empty. When the field is there and its value is empty (\<^verbatim>\<open>None\<close>, the empty
  string, anything false for \<^verbatim>\<open>not\<close>), \<^verbatim>\<open>verify_md5sum\<close> does not raise and looks at
  presence only: it returns true whenever the target exists, whatever its content, and
  false when it does not. So once the target exists the step neither fetches nor raises,
  and it leaves a world in which the same holds again. When the entry has no key
  \<^verbatim>\<open>md5\<close> at all, \<^verbatim>\<open>file['md5']\<close> raises KeyError before the verifier is called.
\<close>

theorem sync_file_empty_md5:
  assumes "py_getitem entry ''file_name'' = Inr (JStr name)"
    and "sync_eligible name"
  shows "(py_getitem entry ''md5'' = Inr want \<and> \<not> truthy want \<longrightarrow>
            verify_md5sum md5_hex (category_path @ ''/'' @ name) want w =
              (if fs w (category_path @ ''/'' @ name) = None
               then (Inr False, emit (Print (''file does not exist: '' @ category_path @ ''/'' @ name)) w)
               else (Inr True, w)))
       \<and> (py_getitem entry ''md5'' = Inr want \<and> \<not> truthy want
            \<and> fs w (category_path @ ''/'' @ name) \<noteq> None \<longrightarrow>
            sync_file md5_hex net category_path entry w
              = (Inr (), emit (Print (category_path @ ''/'' @ name)) w)
          \<and> sync_file md5_hex net category_path entry (emit (Print (category_path @ ''/'' @ name)) w)
              = (Inr (), emit (Print (category_path @ ''/'' @ name))
                           (emit (Print (category_path @ ''/'' @ name)) w)))
       \<and> (py_getitem entry ''md5'' = Inl (KeyError ''md5'') \<longrightarrow>
            sync_file md5_hex net category_path entry w = (Inl (KeyError ''md5''), w))"
  using assms
  by (auto simp: sync_file_eq sync_eligible_def verify_md5sum_eq)

text \<open>An eligible entry without the key, its target in place: KeyError.\<close>

theorem sync_file_empty_md5_counterexample:
  "sync_file md5_xy net_ok ''/d/ce-full'' (JDict [(''file_name'', JStr ''a.bin'')])
       (world_with (File True True ''x''))
     = (Inl (KeyError ''md5''), world_with (File True True ''x''))"
  by (simp add: sync_file_eq [where name = "''a.bin''"] rpartition_def)

theorem sync_file_empty_md5_witness:
  "verify_md5sum md5_xy ''/d/ce-full/a.bin'' (JStr '''') (world_with (File True True ''y''))
     = (Inr True, world_with (File True True ''y''))
   \<and> sync_file md5_xy net_ok ''/d/ce-full'' entry_nodigest (world_with (File True True ''y''))
     = (Inr (), emit (Print ''/d/ce-full/a.bin'') (world_with (File True True ''y'')))
   \<and> sync_file md5_xy net_ok ''/d/ce-full'' entry_nokey world_absent = (Inl (KeyError ''md5''), world_absent)"
proof -
  have n1: "py_getitem entry_nodigest ''file_name'' = Inr (JStr ''a.bin'')"
    and n2: "py_getitem entry_nokey ''file_name'' = Inr (JStr ''a.bin'')"
    and e: "sync_eligible ''a.bin''"
    and m1: "py_getitem entry_nodigest ''md5'' = Inr (JStr '''') \<and> \<not> truthy (JStr '''')"
    and m2: "py_getitem entry_nokey ''md5'' = Inl (KeyError ''md5'')"
    and f: "fs (world_with (File True True ''y'')) ''/d/ce-full/a.bin'' \<noteq> None"
    by code_simp+
  show ?thesis
    using sync_file_empty_md5 [OF n1 e, where want = "JStr ''''" and md5_hex = md5_xy and net = net_ok
            and category_path = "''/d/ce-full''" and w = "world_with (File True True ''y'')"]
          sync_file_empty_md5 [OF n2 e, where md5_hex = md5_xy and net = net_ok
            and category_path = "''/d/ce-full''" and w = world_absent]
          m1 m2 f
    by simp
qed

text \<open>
  Claim C6, as the code has it. Let the verifier return false for an eligible entry, so
  that the file is fetched. When the server answers with a status other than 200, the
  failure is printed, the step ends normally without touching a file, and the loop goes
  on with the next entry. When the server answers 200 without a \<^verbatim>\<open>content-length\<close>
  header, \<^verbatim>\<open>int(None)\<close> raises TypeError: nothing is reported, and the exception leaves
  the loop over the entries, so that the entries after this one are not processed.
\<close>

theorem fetch_failure_policy:
  assumes "py_getitem entry ''file_name'' = Inr (JStr name)"
    and "sync_eligible name"
    and "py_getitem entry ''md5'' = Inr want"
    and "verify_md5sum md5_hex (category_path @ ''/'' @ name) want w = (Inr False, w1)"
    and "net (file_url name) = Inr resp"
  shows "(status_code resp \<noteq> 200 \<longrightarrow>
           (\<exists>w'. sync_file md5_hex net category_path entry w = (Inr (), w')
              \<and> fs w' = fs w
              \<and> trace w' = trace w1 @
                   [Print (''md5 mismatch for '' @ name @ '', redownloading!''),
                    Print (''Downloading '' @ file_url name),
                    HttpGet (file_url name),
                    Print (''Status code '' @ str_int (status_code resp) @ '' for '' @ file_url name
                             @ '', aborting''),
                    Print (category_path @ ''/'' @ name)]
              \<and> for_each (sync_file md5_hex net category_path) (entry # rest) w
                  = for_each (sync_file md5_hex net category_path) rest w'))
       \<and> (status_code resp = 200 \<and> content_length resp = NoLength \<longrightarrow>
           (\<exists>w'. sync_file md5_hex net category_path entry w = (Inl TypeError, w')
              \<and> fs w' = fs w
              \<and> trace w' = trace w1 @
                   [Print (''md5 mismatch for '' @ name @ '', redownloading!''),
                    Print (''Downloading '' @ file_url name),
                    HttpGet (file_url name)]
              \<and> for_each (sync_file md5_hex net category_path) (entry # rest) w = (Inl TypeError, w')))"
proof -
  have f: "fs w1 = fs w"
    by (metis assms(4) snd_conv verify_md5sum_fs)
  show ?thesis
    using assms(1,2,3,5) assms(4) [simplified] f
    by (simp add: sync_file_eq sync_eligible_def download_file_eq Let_def totalsize_of_def)
qed

text \<open>Two files to fetch, a server that sends no \<^verbatim>\<open>content-length\<close>: the run ends with
  TypeError after the first request, and the second file is never requested.\<close>

theorem fetch_failure_policy_counterexample:
  "fst (sync_everything md5_xy net_chunked ''/d'' (JDict [(''ce-full'', JList [entry_a, entry_b])]) world_absent)
     = Inl TypeError
   \<and> http_gets (trace (snd (sync_everything md5_xy net_chunked ''/d''
        (JDict [(''ce-full'', JList [entry_a, entry_b])]) world_absent)))
     = [''https://www.magentocommerce.com/products/downloads/file/a.bin'']"
  by code_simp

theorem fetch_failure_policy_witness:
  "(\<exists>w'. sync_file md5_xy net_404 ''/d/ce-full'' entry_a world_absent = (Inr (), w')
       \<and> for_each (sync_file md5_xy net_404 ''/d/ce-full'') [entry_a, entry_b] world_absent
           = for_each (sync_file md5_xy net_404 ''/d/ce-full'') [entry_b] w')
   \<and> (\<exists>w'. for_each (sync_file md5_xy net_chunked ''/d/ce-full'') [entry_a, entry_b] world_absent
           = (Inl TypeError, w'))"
proof -
  have n: "py_getitem entry_a ''file_name'' = Inr (JStr ''a.bin'')"
    and e: "sync_eligible ''a.bin''"
    and m: "py_getitem entry_a ''md5'' = Inr (JStr ''9dd4e461268c8034f5c8564e155c67a6'')"
    by code_simp+
  have v: "verify_md5sum md5_xy (''/d/ce-full'' @ ''/'' @ ''a.bin'') (JStr ''9dd4e461268c8034f5c8564e155c67a6'')
             world_absent
           = (Inr False, emit (Print (''file does not exist: '' @ ''/d/ce-full'' @ ''/'' @ ''a.bin'')) world_absent)"
    by (simp add: verify_md5sum_eq world_absent_def)
  have r1: "net_404 (file_url ''a.bin'') = Inr \<lparr>status_code = 404, content_length = Length 9, body = ''Not Found''\<rparr>"
    and r2: "net_chunked (file_url ''a.bin'') = Inr \<lparr>status_code = 200, content_length = NoLength, body = ''x''\<rparr>"
    by (simp_all add: net_404_def net_chunked_def)
  show ?thesis
    using fetch_failure_policy [where entry = entry_a and name = "''a.bin''" and md5_hex = md5_xy
            and category_path = "''/d/ce-full''" and w = world_absent and net = net_404
            and rest = "[entry_b]", OF n e m v r1]
          fetch_failure_policy [where entry = entry_a and name = "''a.bin''" and md5_hex = md5_xy
            and category_path = "''/d/ce-full''" and w = world_absent and net = net_chunked
            and rest = "[entry_b]", OF n e m v r2]
    by auto
qed

section \<open>The Sync Planner, category by category\<close>

text \<open>
  Claim C3, as the code has it. In downloader.py the category \<^verbatim>\<open>other\<close> is not among
  the categories that are synced, and a top-level key that is not one of the four
  (\<^verbatim>\<open>other\<close> included) is logged and skipped: its step prints one line, ends normally
  and changes nothing, and the run goes on with the keys after it as if the key had not
  been there. Over a whole run the file system changes only at a category directory of
  one of the four categories, or at a sync-eligible file name directly inside one. In
  sync.py the category \<^verbatim>\<open>other\<close> is synced like the four, and a key outside these five
  fails the assertion: the run stops there with AssertionError.
\<close>

theorem unknown_category_policy:
  "''other'' \<notin> set CATEGORIES
   \<and> (c \<notin> set CATEGORIES \<longrightarrow>
        sync_category md5_hex net root (c, files) w
          = (Inr (), emit (Print (''unknown category: '' @ c @ '', skipping...'')) w)
      \<and> sync_everything md5_hex net root (JDict (before @ (c, files) # after)) w
          = (case sync_everything md5_hex net root (JDict before) w of
               (Inl e, w') \<Rightarrow> (Inl e, w')
             | (Inr u, w') \<Rightarrow>
                 sync_everything md5_hex net root (JDict after)
                   (emit (Print (''unknown category: '' @ c @ '', skipping...'')) w')))
   \<and> (\<forall>q. fs (snd (sync_everything md5_hex net root all_files w)) q \<noteq> fs w q \<longrightarrow>
          (\<exists>k \<in> set CATEGORIES.
             q = root @ ''/'' @ k \<or> (\<exists>name. sync_eligible name \<and> q = root @ ''/'' @ k @ ''/'' @ name)))
   \<and> (c \<notin> set [''other'', ''ee-full'', ''ce-full'', ''ee-patch'', ''ce-patch''] \<longrightarrow>
        sync_py_category md5_hex net (c, files) w = (Inl (AssertionError (''unknown category: '' @ c)), w)
      \<and> sync_py_everything md5_hex net (JDict (before @ (c, files) # after)) w
          = (case sync_py_everything md5_hex net (JDict before) w of
               (Inl e, w') \<Rightarrow> (Inl e, w')
             | (Inr u, w') \<Rightarrow> (Inl (AssertionError (''unknown category: '' @ c)), w')))"
proof (intro conjI impI allI)
  show "''other'' \<notin> set CATEGORIES"
    by (simp add: CATEGORIES_def)
next
  assume "c \<notin> set CATEGORIES"
  then show u: "sync_category md5_hex net root (c, files) w
          = (Inr (), emit (Print (''unknown category: '' @ c @ '', skipping...'')) w)"
    by (rule sync_category_unknown)
  from \<open>c \<notin> set CATEGORIES\<close>
  show "sync_everything md5_hex net root (JDict (before @ (c, files) # after)) w
          = (case sync_everything md5_hex net root (JDict before) w of
               (Inl e, w') \<Rightarrow> (Inl e, w')
             | (Inr u, w') \<Rightarrow>
                 sync_everything md5_hex net root (JDict after)
                   (emit (Print (''unknown category: '' @ c @ '', skipping...'')) w'))"
    by (simp add: sync_everything_def for_each_append sync_category_unknown
          split: prod.splits sum.splits)
next
  fix q
  assume "fs (snd (sync_everything md5_hex net root all_files w)) q \<noteq> fs w q"
  then show "\<exists>k \<in> set CATEGORIES.
             q = root @ ''/'' @ k \<or> (\<exists>name. sync_eligible name \<and> q = root @ ''/'' @ k @ ''/'' @ name)"
    by (rule sync_everything_fs)
next
  assume a: "c \<notin> set [''other'', ''ee-full'', ''ce-full'', ''ee-patch'', ''ce-patch'']"
  then show "sync_py_category md5_hex net (c, files) w = (Inl (AssertionError (''unknown category: '' @ c)), w)"
    by (rule sync_py_category_unknown)
  from a show "sync_py_everything md5_hex net (JDict (before @ (c, files) # after)) w
          = (case sync_py_everything md5_hex net (JDict before) w of
               (Inl e, w') \<Rightarrow> (Inl e, w')
             | (Inr u, w') \<Rightarrow> (Inl (AssertionError (''unknown category: '' @ c)), w'))"
    by (simp add: sync_py_everything_def for_each_append sync_py_category_unknown
          split: prod.splits sum.splits)
qed

text \<open>sync.py on a catalog with the key \<^verbatim>\<open>legacy\<close>, and on a catalog with an entry under
  \<^verbatim>\<open>other\<close>: the first run raises, the second downloads the file.\<close>

theorem unknown_category_policy_counterexample:
  "fst (sync_py_everything md5_xy net_ok (JDict [(''legacy'', JList []), (''ce-full'', JList [entry_a])])
          world_absent)
     = Inl (AssertionError ''unknown category: legacy'')
   \<and> http_gets (trace (snd (sync_py_everything md5_xy net_ok (JDict [(''other'', JList [entry_a])])
          world_absent)))
     = [''https://www.magentocommerce.com/products/downloads/file/a.bin'']
   \<and> fs (snd (sync_py_everything md5_xy net_ok (JDict [(''other'', JList [entry_a])]) world_absent))
        ''other/a.bin''
     = Some (File True True ''x'')"
  by code_simp

theorem unknown_category_policy_witness:
  "sync_category md5_xy net_ok ''/d'' (''legacy'', JList [entry_b]) world_absent
     = (Inr (), emit (Print ''unknown category: legacy, skipping...'') world_absent)
   \<and> sync_everything md5_xy net_ok ''/d'' catalog_legacy world_absent
     = sync_everything md5_xy net_ok ''/d'' (JDict [(''other'', JList [entry_b]), (''ce-full'', JList [entry_a])])
         (emit (Print ''unknown category: legacy, skipping...'') world_absent)
   \<and> fs (snd (sync_everything md5_xy net_ok ''/d'' catalog_legacy world_absent)) ''/d/ce-full/a.bin''
       \<noteq> fs world_absent ''/d/ce-full/a.bin''
   \<and> sync_py_category md5_xy net_ok (''legacy'', JList [entry_b]) world_absent
     = (Inl (AssertionError ''unknown category: legacy''), world_absent)"
proof -
  have l: "''legacy'' \<notin> set CATEGORIES"
    and l5: "''legacy'' \<notin> set [''other'', ''ee-full'', ''ce-full'', ''ee-patch'', ''ce-patch'']"
    by code_simp+
  have ch: "fs (snd (sync_everything md5_xy net_ok ''/d'' catalog_legacy world_absent)) ''/d/ce-full/a.bin''
      \<noteq> fs world_absent ''/d/ce-full/a.bin''"
    by code_simp
  have e: "sync_everything md5_xy net_ok ''/d'' (JDict []) world_absent = (Inr (), world_absent)"
    by (simp add: sync_everything_def)
  show ?thesis
    using unknown_category_policy [where c = "''legacy''" and md5_hex = md5_xy and net = net_ok
            and root = "''/d''" and files = "JList [entry_b]" and w = world_absent and before = "[]"
            and after = "[(''other'', JList [entry_b]), (''ce-full'', JList [entry_a])]"
            and all_files = catalog_legacy]
          l l5 ch e
    by (simp add: catalog_legacy_def)
qed

section \<open>The Category Classifier\<close>

lemma chain_from_iterable_lists:
  "chain_from_iterable (map (\<lambda>g. JList (snd g)) groups) = Inr (concat (map snd groups))"
  by (induction groups) simp_all

text \<open>
  Claim C5. A category whose value is a mapping from grouping keys to entry sequences is
  flattened to the concatenation of the group values, in the order the mapping lists its
  keys and with the order inside each group kept; the groups \<^verbatim>\<open>"1.9": [A, B]\<close> and
  \<^verbatim>\<open>"1.10": [C]\<close> give \<^verbatim>\<open>[A, B, C]\<close>. A value that is an entry sequence is left as it is.
  So the Sync Planner treats a category given in groups as it treats the flattened list.
\<close>

theorem flatten_files_concat:
  "flatten_files (JDict (map (\<lambda>g. (fst g, JList (snd g))) groups)) = Inr (JList (concat (map snd groups)))
   \<and> flatten_files (JDict [(''1.9'', JList [A, B]), (''1.10'', JList [C])]) = Inr (JList [A, B, C])
   \<and> flatten_files (JList xs) = Inr (JList xs)
   \<and> sync_category md5_hex net root (c, JDict (map (\<lambda>g. (fst g, JList (snd g))) groups))
       = sync_category md5_hex net root (c, JList (concat (map snd groups)))"
  by (simp add: sync_category_def flatten_files_def comp_def chain_from_iterable_lists)

section \<open>The Patch Requirement Indexer\<close>

lemma v2p_add_keys: "map fst (v2p_add v p l) = (if v \<in> set (map fst l) then map fst l else map fst l @ [v])"
  by (induction l) (auto simp: rev_image_eqI)

lemma v2p_add_distinct: "distinct (map fst l) \<Longrightarrow> distinct (map fst (v2p_add v p l))"
  by (simp add: v2p_add_keys)

lemma patches_at_add:
  "patches_at (v2p_add v p l) k = (if k = v then insert p (patches_at l v) else patches_at l k)"
  by (induction l) (auto simp: patches_at_def)

lemma fold_add_distinct:
  "distinct (map fst l) \<Longrightarrow> distinct (map fst (fold (\<lambda>k. v2p_add k p) ks l))"
  by (induction ks arbitrary: l) (simp_all add: v2p_add_distinct)

lemma patches_at_fold_add:
  "patches_at (fold (\<lambda>k. v2p_add k p) ks l) k
     = (if k \<in> set ks then insert p (patches_at l k) else patches_at l k)"
  by (induction ks arbitrary: l) (auto simp: patches_at_add)

lemma format_each_strs:
  "list_all is_str xs \<Longrightarrow> format_each prefix xs = Inr (map (\<lambda>v. prefix @ v) (map str_of xs))"
proof (induction xs)
  case Nil
  then show ?case by simp
next
  case (Cons x xs)
  then show ?case by (cases x) simp_all
qed

lemma version_keys_typed:
  assumes "is_version_list key entry"
  shows "version_keys prefix key entry = Inr (map (\<lambda>v. prefix @ v) (versions_of key entry))"
proof -
  from assms obtain xs where g: "py_get entry key = Inr (JList xs)" and s: "list_all is_str xs"
    by (auto simp: is_version_list_def split: sum.splits json.splits)
  then show ?thesis
    by (simp add: version_keys_def versions_of_def format_each_strs)
qed

lemma for_fold_add_patch:
  assumes "py_getitem entry ''file_name'' = Inr (JStr n)"
  shows "for_fold (add_patch entry) ks l = Inr (fold (\<lambda>k. v2p_add k (JStr n)) ks l)"
  using assms by (induction ks arbitrary: l) (simp_all add: add_patch_def)

lemma index_file_typed:
  assumes "is_patch_entry entry"
  shows "index_file entry l = Inr (fold (\<lambda>k. v2p_add k (JStr (name_of entry))) (keys_of entry) l)"
proof -
  from assms obtain n where n: "py_getitem entry ''file_name'' = Inr (JStr n)"
    by (auto simp: is_patch_entry_def split: sum.splits elim: is_str.elims)
  then have "name_of entry = n"
    by (simp add: name_of_def)
  with assms n show ?thesis
    by (simp add: index_file_def is_patch_entry_def version_keys_typed keys_of_def for_fold_add_patch)
qed

lemma index_files_typed:
  assumes "list_all is_patch_entry es"
  shows "\<exists>l'. for_fold index_file es l = Inr l'
           \<and> (distinct (map fst l) \<longrightarrow> distinct (map fst l'))
           \<and> (\<forall>k. patches_at l' k
                  = patches_at l k \<union> {JStr (name_of e) | e. e \<in> set es \<and> k \<in> set (keys_of e)})"
  using assms
proof (induction es arbitrary: l)
  case Nil
  then show ?case by simp
next
  case (Cons e es)
  define l1 where "l1 = fold (\<lambda>k. v2p_add k (JStr (name_of e))) (keys_of e) l"
  from Cons.prems have e: "index_file e l = Inr l1" and es: "list_all is_patch_entry es"
    by (simp_all add: index_file_typed l1_def)
  from Cons.IH [OF es, of l1] obtain l' where
    r: "for_fold index_file es l1 = Inr l'"
    and d: "distinct (map fst l1) \<longrightarrow> distinct (map fst l')"
    and p: "\<And>k. patches_at l' k
                  = patches_at l1 k \<union> {JStr (name_of e) | e. e \<in> set es \<and> k \<in> set (keys_of e)}"
    by blast
  have d1: "distinct (map fst l) \<longrightarrow> distinct (map fst l1)"
    by (simp add: l1_def fold_add_distinct)
  have p1: "patches_at l1 k = patches_at l k \<union> {JStr (name_of e) | x. x = e \<and> k \<in> set (keys_of e)}" for k
    by (auto simp: l1_def patches_at_fold_add)
  have "patches_at l' k
      = patches_at l k \<union> {JStr (name_of x) | x. x \<in> set (e # es) \<and> k \<in> set (keys_of x)}" for k
    unfolding p p1 by auto
  with e r d d1 show ?case by simp
qed

lemma index_category_typed:
  assumes "endswith (fst item) ''-patch'' \<longrightarrow> is_patch_list (snd item)"
  shows "\<exists>l'. index_category item l = Inr l'
           \<and> (distinct (map fst l) \<longrightarrow> distinct (map fst l'))
           \<and> (\<forall>k. patches_at l' k
                  = patches_at l k
                    \<union> {JStr (name_of e) | e.
                         e \<in> set (if endswith (fst item) ''-patch'' then entries_of (snd item) else [])
                         \<and> k \<in> set (keys_of e)})"
proof (cases "endswith (fst item) ''-patch''")
  case False
  then show ?thesis by (simp add: index_category_def)
next
  case True
  with assms obtain es where f: "flatten_files (snd item) = Inr (JList es)" and t: "list_all is_patch_entry es"
    by (auto simp: is_patch_list_def split: sum.splits json.splits)
  from index_files_typed [OF t, of l] True f show ?thesis
    by (simp add: index_category_def entries_of_def)
qed

lemma index_categories_typed:
  assumes "list_all (\<lambda>item. is_patch_list (snd item)) (filter (\<lambda>item. endswith (fst item) ''-patch'') items)"
  shows "\<exists>l'. for_fold index_category items l = Inr l'
           \<and> (distinct (map fst l) \<longrightarrow> distinct (map fst l'))
           \<and> (\<forall>k. patches_at l' k
                  = patches_at l k
                    \<union> {JStr (name_of e) | e.
                         e \<in> set (concat (map (\<lambda>item. entries_of (snd item))
                                      (filter (\<lambda>item. endswith (fst item) ''-patch'') items)))
                         \<and> k \<in> set (keys_of e)})"
  using assms
proof (induction items arbitrary: l)
  case Nil
  then show ?case by simp
next
  case (Cons item items)
  from Cons.prems have a: "endswith (fst item) ''-patch'' \<longrightarrow> is_patch_list (snd item)"
    and b: "list_all (\<lambda>item. is_patch_list (snd item)) (filter (\<lambda>item. endswith (fst item) ''-patch'') items)"
    by (simp_all split: if_splits)
  from index_category_typed [OF a, of l] obtain l1 where
    r1: "index_category item l = Inr l1"
    and d1: "distinct (map fst l) \<longrightarrow> distinct (map fst l1)"
    and p1: "\<And>k. patches_at l1 k
                  = patches_at l k
                    \<union> {JStr (name_of e) | e.
                         e \<in> set (if endswith (fst item) ''-patch'' then entries_of (snd item) else [])
                         \<and> k \<in> set (keys_of e)}"
    by blast
  from Cons.IH [OF b, of l1] obtain l' where
    r: "for_fold index_category items l1 = Inr l'"
    and d: "distinct (map fst l1) \<longrightarrow> distinct (map fst l')"
    and p: "\<And>k. patches_at l' k
                  = patches_at l1 k
                    \<union> {JStr (name_of e) | e.
                         e \<in> set (concat (map (\<lambda>item. entries_of (snd item))
                                      (filter (\<lambda>item. endswith (fst item) ''-patch'') items)))
                         \<and> k \<in> set (keys_of e)}"
    by blast
  have "patches_at l' k
                  = patches_at l k
                    \<union> {JStr (name_of e) | e.
                         e \<in> set (concat (map (\<lambda>item. entries_of (snd item))
                                      (filter (\<lambda>item. endswith (fst item) ''-patch'') (item # items))))
                         \<and> k \<in> set (keys_of e)}" for k
    unfolding p p1 by auto
  with r1 r d1 d show ?case by simp
qed

lemma distinct_keys_sort_key:
  "distinct (map fst l) \<Longrightarrow> distinct (map fst (sort_key fst l))"
  by (simp add: distinct_map)

lemma patches_at_sort_key:
  assumes "distinct (map fst l)"
  shows "patches_at (sort_key fst l) k = patches_at l k"
proof -
  have "map_of (sort_key fst l) = map_of l"
    using assms distinct_keys_sort_key [OF assms]
    by (simp add: map_of_inject_set)
  then show ?thesis by (simp add: patches_at_def)
qed

lemma patches_at_member:
  "x \<in> patches_at l k \<Longrightarrow> \<exists>S. (k, S) \<in> set l \<and> x \<in> S"
  by (auto simp: patches_at_def split: option.splits dest: map_of_SomeD)

lemma patches_at_pair:
  "distinct (map fst l) \<Longrightarrow> (k, S) \<in> set l \<Longrightarrow> patches_at l k = S"
  by (simp add: patches_at_def)

text \<open>
  Claim C9. For a catalog whose patch categories hold patch entries, \<^verbatim>\<open>calc_req_patches\<close>
  does not raise, and the list of pairs it goes through is in strictly increasing
  lexicographic order of the version keys. For each patch entry and each version \<open>v\<close> in
  its \<^verbatim>\<open>ee_versions\<close>, the file name is in the set keyed by \<^verbatim>\<open>"EE " + v\<close>, and for each
  \<open>v\<close> in its \<^verbatim>\<open>ce_versions\<close> in the set keyed by \<^verbatim>\<open>"CE " + v\<close>. Only patch categories
  count: the set of a key holds exactly the file names of the patch entries filed under
  that key. On the two entries of the example the list is \<^verbatim>\<open>CE 1.9.0\<close> with \<^verbatim>\<open>p2\<close> and
  then \<^verbatim>\<open>EE 1.14.0\<close> with \<^verbatim>\<open>p1\<close> and \<^verbatim>\<open>p2\<close>, and an entry of \<^verbatim>\<open>ee-full\<close> that names
  the same version does not appear.
\<close>

theorem calc_req_patches_index:
  assumes "is_patch_catalog all_files"
  shows "\<exists>index. calc_req_patches all_files = Inr index
          \<and> sorted (map fst index) \<and> distinct (map fst index)
          \<and> (\<forall>e v. e \<in> set (patch_entries all_files) \<and> v \<in> set (versions_of ''ee_versions'' e) \<longrightarrow>
                (\<exists>S. (''EE '' @ v, S) \<in> set index \<and> JStr (name_of e) \<in> S))
          \<and> (\<forall>e v. e \<in> set (patch_entries all_files) \<and> v \<in> set (versions_of ''ce_versions'' e) \<longrightarrow>
                (\<exists>S. (''CE '' @ v, S) \<in> set index \<and> JStr (name_of e) \<in> S))
          \<and> (\<forall>k S. (k, S) \<in> set index \<longrightarrow>
                S = {JStr (name_of e) | e. e \<in> set (patch_entries all_files) \<and> k \<in> set (keys_of e)})
          \<and> calc_req_patches catalog_patches
              = Inr [(''CE 1.9.0'', {JStr ''p2''}), (''EE 1.14.0'', {JStr ''p1'', JStr ''p2''})]
          \<and> (''CE 1.9.0'' :: string) < ''EE 1.14.0''"
proof -
  from assms obtain items where items: "all_files = JDict items"
    by (cases all_files) (simp_all add: is_patch_catalog_def)
  with assms have t: "list_all (\<lambda>item. is_patch_list (snd item))
      (filter (\<lambda>item. endswith (fst item) ''-patch'') items)"
    by (simp add: is_patch_catalog_def patch_items_def)
  from index_categories_typed [OF t, of "[]"] obtain l where
    r: "for_fold index_category items [] = Inr l"
    and d: "distinct (map fst l)"
    and p: "\<And>k. patches_at l k
              = {JStr (name_of e) | e. e \<in> set (patch_entries all_files) \<and> k \<in> set (keys_of e)}"
    by (auto simp: patch_entries_def patch_items_def items patches_at_def)
  define index where "index = sort_key fst l"
  have c: "calc_req_patches all_files = Inr index"
    by (simp add: calc_req_patches_def items r index_def)
  have s: "sorted (map fst index)" and di: "distinct (map fst index)"
    by (simp_all add: index_def d distinct_keys_sort_key)
  have pi: "patches_at index k
              = {JStr (name_of e) | e. e \<in> set (patch_entries all_files) \<and> k \<in> set (keys_of e)}" for k
    by (simp add: index_def patches_at_sort_key d p)
  have ee: "\<exists>S. (''EE '' @ v, S) \<in> set index \<and> JStr (name_of e) \<in> S"
    if "e \<in> set (patch_entries all_files)" "v \<in> set (versions_of ''ee_versions'' e)" for e v
  proof (rule patches_at_member)
    have "''EE '' @ v \<in> set (keys_of e)"
      using that by (simp add: keys_of_def)
    with that show "JStr (name_of e) \<in> patches_at index (''EE '' @ v)"
      unfolding pi by blast
  qed
  have ce: "\<exists>S. (''CE '' @ v, S) \<in> set index \<and> JStr (name_of e) \<in> S"
    if "e \<in> set (patch_entries all_files)" "v \<in> set (versions_of ''ce_versions'' e)" for e v
  proof (rule patches_at_member)
    have "''CE '' @ v \<in> set (keys_of e)"
      using that by (simp add: keys_of_def)
    with that show "JStr (name_of e) \<in> patches_at index (''CE '' @ v)"
      unfolding pi by blast
  qed
  have ex: "S = {JStr (name_of e) | e. e \<in> set (patch_entries all_files) \<and> k \<in> set (keys_of e)}"
    if "(k, S) \<in> set index" for k S
    using patches_at_pair [OF di that] pi [of k] by simp
  have x1: "calc_req_patches catalog_patches
              = Inr [(''CE 1.9.0'', {JStr ''p2''}), (''EE 1.14.0'', {JStr ''p1'', JStr ''p2''})]"
    by code_simp
  have x2: "(''CE 1.9.0'' :: string) < ''EE 1.14.0''"
    by code_simp
  from c s di ee ce ex x1 x2 show ?thesis
    by blast
qed

theorem calc_req_patches_index_witness:
  "\<exists>index. calc_req_patches catalog_patches = Inr index
      \<and> sorted (map fst index)
      \<and> (\<exists>S. (''EE '' @ ''1.14.0'', S) \<in> set index \<and> JStr (name_of patch_p1) \<in> S)
      \<and> (\<exists>S. (''CE '' @ ''1.9.0'', S) \<in> set index \<and> JStr (name_of patch_p2) \<in> S)"
proof -
  have h: "is_patch_catalog catalog_patches"
    by code_simp
  have p1: "patch_p1 \<in> set (patch_entries catalog_patches) \<and> ''1.14.0'' \<in> set (versions_of ''ee_versions'' patch_p1)"
    by code_simp
  have p2: "patch_p2 \<in> set (patch_entries catalog_patches) \<and> ''1.9.0'' \<in> set (versions_of ''ce_versions'' patch_p2)"
    by code_simp
  from calc_req_patches_index [OF h] obtain index where
    c: "calc_req_patches catalog_patches = Inr index" and s: "sorted (map fst index)"
    and ee: "\<forall>e v. e \<in> set (patch_entries catalog_patches) \<and> v \<in> set (versions_of ''ee_versions'' e) \<longrightarrow>
                (\<exists>S. (''EE '' @ v, S) \<in> set index \<and> JStr (name_of e) \<in> S)"
    and ce: "\<forall>e v. e \<in> set (patch_entries catalog_patches) \<and> v \<in> set (versions_of ''ce_versions'' e) \<longrightarrow>
                (\<exists>S. (''CE '' @ v, S) \<in> set index \<and> JStr (name_of e) \<in> S)"
    by (elim exE conjE)
  note e1 = ee [THEN spec, THEN spec, THEN mp, OF p1]
  note e2 = ce [THEN spec, THEN spec, THEN mp, OF p2]
  show ?thesis
    using c s e1 e2 by (intro exI [of _ index] conjI)
qed

end
